theory Spec2Isabelle
  imports Main "HOL-Library.AList"
begin

section \<open>The ThingsBoard bootstrapper: values, requests and the remote platform\<close>

text \<open>
  The program of \<^verbatim>\<open>configure_thingsboard.py\<close> works on decoded JSON: every value it
  reads from the platform or sends to it is \<^verbatim>\<open>None\<close>, a boolean, a number, a string, a
  list or a dict. Python's \<^verbatim>\<open>None\<close> and JSON's \<^verbatim>\<open>null\<close> are the same value \<open>JNull\<close>.
  Numbers are integers (the program computes with list indices only; floating-point
  numbers are outside the model). A dict is the list of its items in insertion order.
\<close>

datatype json =
    JNull
  | JBool bool
  | JNum int
  | JStr string
  | JArr "json list"
  | JObj "(string \<times> json) list"

text \<open>
  The exceptions the program can meet. \<^verbatim>\<open>RequestError\<close> is the program's own class; its
  message is kept structured, one constructor for each place that raises it. The next
  three are the interpreter's, raised when a decoded value has not the shape the code
  expects. \<open>OtherException\<close> stands for any exception of \<^verbatim>\<open>urlopen\<close>, of reading the body
  or of \<^verbatim>\<open>json.loads\<close> that is neither an \<^verbatim>\<open>HTTPError\<close> nor a \<^verbatim>\<open>URLError\<close> (a dropped
  connection, a read timeout, a body that is not JSON): lines 45-49 do not catch it, so it
  leaves \<^verbatim>\<open>_http_request\<close> as it is. Only \<^verbatim>\<open>RequestError\<close> is caught anywhere.
\<close>

datatype endpoint =
    TenantDevices string         \<comment> \<open>\<^verbatim>\<open>/api/tenant/devices?pageSize=50&page=0&textSearch=<name>\<close>\<close>
  | Device                       \<comment> \<open>\<^verbatim>\<open>/api/device\<close>\<close>
  | DeviceCredentialsOf json     \<comment> \<open>\<^verbatim>\<open>/api/device/<dev_id>/credentials\<close>\<close>
  | DeviceCredentials            \<comment> \<open>\<^verbatim>\<open>/api/device/credentials\<close>\<close>
  | RuleChains string            \<comment> \<open>\<^verbatim>\<open>/api/ruleChains?pageSize=50&page=0&textSearch=<name>\<close>\<close>
  | RuleChainMetadataOf json     \<comment> \<open>\<^verbatim>\<open>/api/ruleChain/<chain_id>/metadata\<close>\<close>
  | RuleChainMetadata            \<comment> \<open>\<^verbatim>\<open>/api/ruleChain/metadata\<close>\<close>

datatype request_error =
    HttpStatus int endpoint string   \<comment> \<open>\<^verbatim>\<open>HTTP <code> for <path>: <detail>\<close>\<close>
  | Transport endpoint string        \<comment> \<open>\<^verbatim>\<open>Request to <path> failed: <err>\<close>\<close>
  | Message string                   \<comment> \<open>a fixed message\<close>

datatype py_error =
    RequestError request_error
  | AttributeError
  | TypeError
  | KeyError
  | OtherException string

text \<open>
  A request as \<^verbatim>\<open>_http_request\<close> builds it: the path, the method, the encoded payload
  (absent when the payload is \<^verbatim>\<open>None\<close>) and the authorization header (absent when the
  token is empty). What lines 40-44 end in is a decoded body (\<open>JNull\<close> for an empty
  one), an \<^verbatim>\<open>HTTPError\<close> with its status and body, a \<^verbatim>\<open>URLError\<close>, or another
  exception, named by its class.
\<close>

record request =
  req_path :: endpoint
  req_method :: string
  req_data :: "json option"
  req_auth :: "string option"

datatype response =
    Body json
  | HTTPError int string
  | URLError string
  | Raised string

text \<open>
  The remote platform is a parameter: a transition function from its state and a request
  to a response and its next state. A session holds the platform's state and the requests
  sent so far, oldest first.
\<close>

type_synonym 'w server = "'w \<Rightarrow> request \<Rightarrow> response \<times> 'w"

record 'w session =
  world :: 'w
  sent :: "request list"

subsection \<open>Python's operations on decoded values\<close>

fun py_truthy :: "json \<Rightarrow> bool" where
  "py_truthy JNull = False"
| "py_truthy (JBool b) = b"
| "py_truthy (JNum n) = (n \<noteq> 0)"
| "py_truthy (JStr s) = (s \<noteq> [])"
| "py_truthy (JArr xs) = (xs \<noteq> [])"
| "py_truthy (JObj kvs) = (kvs \<noteq> [])"

definition py_or :: "json \<Rightarrow> json \<Rightarrow> json" where
  "py_or a b = (if py_truthy a then a else b)"

text \<open>\<^verbatim>\<open>d.get(k, default)\<close> and \<^verbatim>\<open>d.get(k)\<close> on the items of a dict.\<close>

definition dict_get_default :: "(string \<times> json) list \<Rightarrow> string \<Rightarrow> json \<Rightarrow> json" where
  "dict_get_default kvs k dflt = (case map_of kvs k of None \<Rightarrow> dflt | Some v \<Rightarrow> v)"

definition dict_get :: "(string \<times> json) list \<Rightarrow> string \<Rightarrow> json" where
  "dict_get kvs k = dict_get_default kvs k JNull"

text \<open>\<^verbatim>\<open>d[k] = v\<close>: replaces the value of an existing key in place, or adds the item at the end.\<close>

definition dict_set :: "string \<Rightarrow> json \<Rightarrow> (string \<times> json) list \<Rightarrow> (string \<times> json) list" where
  "dict_set k v kvs = AList.update k v kvs"

text \<open>\<^verbatim>\<open>v[k]\<close> with a string key: only a dict can be subscripted so.\<close>

fun py_getitem :: "json \<Rightarrow> string \<Rightarrow> py_error + json" where
  "py_getitem (JObj kvs) k = (case map_of kvs k of None \<Rightarrow> Inl KeyError | Some v \<Rightarrow> Inr v)"
| "py_getitem _ k = Inl TypeError"

text \<open>
  \<^verbatim>\<open>for x in v\<close>: a list gives its elements, a dict its keys, a string its characters;
  nothing else can be iterated.
\<close>

fun py_iter :: "json \<Rightarrow> py_error + json list" where
  "py_iter (JArr xs) = Inr xs"
| "py_iter (JObj kvs) = Inr (map (\<lambda>kv. JStr (fst kv)) kvs)"
| "py_iter (JStr s) = Inr (map (\<lambda>c. JStr [c]) s)"
| "py_iter _ = Inl TypeError"

text \<open>\<^verbatim>\<open>v == i\<close> for an integer \<open>i\<close>: a boolean compares as 0 or 1.\<close>

fun py_eq_int :: "json \<Rightarrow> int \<Rightarrow> bool" where
  "py_eq_int (JNum n) i = (n = i)"
| "py_eq_int (JBool b) i = ((if b then 1 else 0) = i)"
| "py_eq_int _ i = False"

fun starts_with :: "string \<Rightarrow> string \<Rightarrow> bool" where
  "starts_with [] s = True"
| "starts_with (c # cs) [] = False"
| "starts_with (c # cs) (d # ds) = (c = d \<and> starts_with cs ds)"

fun str_contains :: "string \<Rightarrow> string \<Rightarrow> bool" where
  "str_contains sub [] = (sub = [])"
| "str_contains sub (d # ds) = (starts_with sub (d # ds) \<or> str_contains sub ds)"

text \<open>
  \<^verbatim>\<open>s in v\<close> for a string \<open>s\<close>: a substring test on a string, an element test on a list,
  a key test on a dict, a \<^verbatim>\<open>TypeError\<close> on anything else.
\<close>

fun py_in :: "string \<Rightarrow> json \<Rightarrow> py_error + bool" where
  "py_in s (JStr t) = Inr (str_contains s t)"
| "py_in s (JArr xs) = Inr (JStr s \<in> set xs)"
| "py_in s (JObj kvs) = Inr (s \<in> fst ` set kvs)"
| "py_in s _ = Inl TypeError"

subsection \<open>The API client\<close>

text \<open>
  \<^verbatim>\<open>_http_request\<close> (lines 29-49): builds the request, sends it, and returns the decoded
  body or raises \<^verbatim>\<open>RequestError\<close>. The request is recorded in the session.
\<close>

definition build_request :: "endpoint \<Rightarrow> string \<Rightarrow> json \<Rightarrow> string \<Rightarrow> request" where
  "build_request path method payload token =
     \<lparr> req_path = path, req_method = method,
       req_data = (if payload \<noteq> JNull then Some payload else None),
       req_auth = (if token \<noteq> [] then Some (''Bearer '' @ token) else None) \<rparr>"

text \<open>
  Lines 39-49: the decoded body, the \<^verbatim>\<open>RequestError\<close> raised for the path, or the
  exception that no handler of \<^verbatim>\<open>_http_request\<close> catches.
\<close>

fun response_result :: "endpoint \<Rightarrow> response \<Rightarrow> py_error + json" where
  "response_result path (Body v) = Inr v"
| "response_result path (HTTPError code detail) = Inl (RequestError (HttpStatus code path detail))"
| "response_result path (URLError err) = Inl (RequestError (Transport path err))"
| "response_result path (Raised what) = Inl (OtherException what)"

definition http_request ::
  "'w server \<Rightarrow> endpoint \<Rightarrow> string \<Rightarrow> json \<Rightarrow> string \<Rightarrow> 'w session
     \<Rightarrow> (py_error + json) \<times> 'w session" where
  "http_request srv path method payload token st =
     (let req = build_request path method payload token;
          (resp, w') = srv (world st) req
      in (response_result path resp, \<lparr> world = w', sent = sent st @ [req] \<rparr>))"

subsection \<open>Lookups by exact name\<close>

text \<open>
  The loop of \<^verbatim>\<open>find_device\<close> and \<^verbatim>\<open>find_rule_chain\<close> (lines 84-87, 124-127): the first
  item whose \<^verbatim>\<open>name\<close> equals the lookup name, \<^verbatim>\<open>None\<close> when there is none. An item that is
  not a dict has no \<^verbatim>\<open>get\<close>.
\<close>

fun first_named :: "string \<Rightarrow> json list \<Rightarrow> py_error + json" where
  "first_named name [] = Inr JNull"
| "first_named name (JObj kvs # items) =
     (if dict_get kvs ''name'' = JStr name then Inr (JObj kvs) else first_named name items)"
| "first_named name (_ # items) = Inl AttributeError"

text \<open>Lines 83-87 and 123-127: \<^verbatim>\<open>page = ... or {}\<close>, then the loop over \<^verbatim>\<open>page.get("data", [])\<close>.\<close>

definition search_page :: "string \<Rightarrow> json \<Rightarrow> py_error + json" where
  "search_page name result =
     (case py_or result (JObj []) of
        JObj page \<Rightarrow>
          (case py_iter (dict_get_default page ''data'' (JArr [])) of
             Inl e \<Rightarrow> Inl e
           | Inr items \<Rightarrow> first_named name items)
      | _ \<Rightarrow> Inl AttributeError)"

definition find_device ::
  "'w server \<Rightarrow> string \<Rightarrow> string \<Rightarrow> 'w session \<Rightarrow> (py_error + json) \<times> 'w session" where
  "find_device srv token name st =
     (case http_request srv (TenantDevices name) ''GET'' JNull token st of
        (Inl e, st') \<Rightarrow> (Inl e, st')
      | (Inr result, st') \<Rightarrow> (search_page name result, st'))"

definition find_rule_chain ::
  "'w server \<Rightarrow> string \<Rightarrow> string \<Rightarrow> 'w session \<Rightarrow> (py_error + json) \<times> 'w session" where
  "find_rule_chain srv token name st =
     (case http_request srv (RuleChains name) ''GET'' JNull token st of
        (Inl e, st') \<Rightarrow> (Inl e, st')
      | (Inr result, st') \<Rightarrow> (search_page name result, st'))"

subsection \<open>The entity reconciler\<close>

text \<open>
  Lines 102-109 of \<^verbatim>\<open>ensure_device\<close>: the credential payload, with the id and the owner of
  the fetched record carried over when the record and its id are truthy.
\<close>

definition cred_payload :: "json \<Rightarrow> string \<Rightarrow> json \<Rightarrow> py_error + json" where
  "cred_payload dev_id access_token credentials =
     (let base = [(''credentialsType'', JStr ''ACCESS_TOKEN''),
                  (''credentialsId'', JStr access_token),
                  (''deviceId'', JObj [(''entityType'', JStr ''DEVICE''), (''id'', dev_id)])]
      in if \<not> py_truthy credentials then Inr (JObj base)
         else case credentials of
                JObj cred \<Rightarrow>
                  if py_truthy (dict_get cred ''id'')
                  then (case py_getitem credentials ''id'' of
                          Inl e \<Rightarrow> Inl e
                        | Inr cid \<Rightarrow>
                            let p1 = dict_set ''id'' cid base
                            in Inr (JObj (dict_set ''deviceId''
                                            (dict_get_default cred ''deviceId'' (dict_get p1 ''deviceId''))
                                            p1)))
                  else Inr (JObj base)
              | _ \<Rightarrow> Inl AttributeError)"

text \<open>\<^verbatim>\<open>device["id"]["id"]\<close> (line 100) and \<^verbatim>\<open>root_chain["id"]["id"]\<close> (line 134).\<close>

definition id_of :: "json \<Rightarrow> py_error + json" where
  "id_of v = (case py_getitem v ''id'' of Inl e \<Rightarrow> Inl e | Inr i \<Rightarrow> py_getitem i ''id'')"

text \<open>Lines 91-99: the device found by name, or the one created when none is found.\<close>

definition obtain_device ::
  "'w server \<Rightarrow> string \<Rightarrow> string \<Rightarrow> 'w session \<Rightarrow> (py_error + json) \<times> 'w session" where
  "obtain_device srv token name st =
     (case find_device srv token name st of
        (Inl e, st1) \<Rightarrow> (Inl e, st1)
      | (Inr device, st1) \<Rightarrow>
          if \<not> py_truthy device
          then http_request srv Device ''POST''
                 (JObj [(''name'', JStr name), (''type'', JStr ''drone'')]) token st1
          else (Inr device, st1))"

definition ensure_device ::
  "'w server \<Rightarrow> string \<Rightarrow> string \<Rightarrow> string \<Rightarrow> 'w session \<Rightarrow> (py_error + json) \<times> 'w session" where
  "ensure_device srv token name access_token st =
     (case obtain_device srv token name st of
        (Inl e, st2) \<Rightarrow> (Inl e, st2)
      | (Inr device, st2) \<Rightarrow>
          (case id_of device of
             Inl e \<Rightarrow> (Inl e, st2)
           | Inr dev_id \<Rightarrow>
               (case http_request srv (DeviceCredentialsOf dev_id) ''GET'' JNull token st2 of
                  (Inl e, st3) \<Rightarrow> (Inl e, st3)
                | (Inr credentials, st3) \<Rightarrow>
                    (case cred_payload dev_id access_token credentials of
                       Inl e \<Rightarrow> (Inl e, st3)
                     | Inr payload \<Rightarrow>
                         (case http_request srv DeviceCredentials ''POST'' payload token st3 of
                            (Inl e, st4) \<Rightarrow> (Inl e, st4)
                          | (Inr _, st4) \<Rightarrow> (Inr device, st4))))))"

subsection \<open>The graph reconciler\<close>

text \<open>
  What \<^verbatim>\<open>ensure_kafka_sink_in_root_chain\<close> reads from outside the platform: the two
  environment settings, and the values of \<^verbatim>\<open>str(uuid4())\<close> and
  \<^verbatim>\<open>int(time.time() * 1000)\<close> at the moment the node is built.
\<close>

record env =
  KAFKA_TOPIC :: string
  KAFKA_BOOTSTRAP :: string
  uuid4 :: string
  time_ms :: int

definition kafka_type :: string where
  "kafka_type = ''org.thingsboard.rule.engine.kafka.TbKafkaNode''"

definition switch_substring :: string where
  "switch_substring = ''TbMsgTypeSwitchNode''"

text \<open>
  \<^verbatim>\<open>next((idx for idx, node in enumerate(nodes) if p(node)), None)\<close>: the index of the
  first node that satisfies \<open>p\<close>, counting from \<open>i\<close>; an exception of \<open>p\<close> on an earlier
  node ends the search.
\<close>

fun next_index :: "(json \<Rightarrow> py_error + bool) \<Rightarrow> nat \<Rightarrow> json list \<Rightarrow> py_error + nat option" where
  "next_index p i [] = Inr None"
| "next_index p i (node # nodes) =
     (case p node of
        Inl e \<Rightarrow> Inl e
      | Inr True \<Rightarrow> Inr (Some i)
      | Inr False \<Rightarrow> next_index p (Suc i) nodes)"

text \<open>Line 143: \<^verbatim>\<open>node.get("type") == "org.thingsboard.rule.engine.kafka.TbKafkaNode"\<close>.\<close>

fun is_kafka_node :: "json \<Rightarrow> py_error + bool" where
  "is_kafka_node (JObj node) = Inr (dict_get node ''type'' = JStr kafka_type)"
| "is_kafka_node _ = Inl AttributeError"

text \<open>Line 147: \<^verbatim>\<open>"TbMsgTypeSwitchNode" in node.get("type", "")\<close>.\<close>

fun is_switch_node :: "json \<Rightarrow> py_error + bool" where
  "is_switch_node (JObj node) = py_in switch_substring (dict_get_default node ''type'' (JStr []))"
| "is_switch_node _ = Inl AttributeError"

text \<open>Lines 154-179: the node that is appended.\<close>

definition kafka_node :: "env \<Rightarrow> json \<Rightarrow> json" where
  "kafka_node ev chain_id =
     JObj [(''id'', JObj [(''entityType'', JStr ''RULE_NODE''), (''id'', JStr (uuid4 ev))]),
           (''createdTime'', JNum (time_ms ev)),
           (''ruleChainId'', JObj [(''entityType'', JStr ''RULE_CHAIN''), (''id'', chain_id)]),
           (''type'', JStr kafka_type),
           (''name'', JStr ''Kafka sink''),
           (''debugSettings'', JNull),
           (''singletonMode'', JBool False),
           (''queueName'', JNull),
           (''configurationVersion'', JNum 0),
           (''configuration'',
              JObj [(''topic'', JStr (KAFKA_TOPIC ev)),
                    (''bootstrapServers'', JStr (KAFKA_BOOTSTRAP ev)),
                    (''sync'', JBool False),
                    (''timeout'', JNum 3000),
                    (''retries'', JNum 1),
                    (''acks'', JStr ''1''),
                    (''batchSize'', JNum 16384),
                    (''linger'', JNum 1),
                    (''maxRequestSize'', JNum 1048576),
                    (''key'', JStr ''${deviceName}''),
                    (''addMetadata'', JBool False)]),
           (''externalId'', JNull),
           (''additionalInfo'', JObj [(''layoutX'', JNum 1000), (''layoutY'', JNum 320)])]"

text \<open>Line 188: the connection that is appended.\<close>

definition new_connection :: "nat \<Rightarrow> nat \<Rightarrow> json" where
  "new_connection msg_switch_index kafka_index =
     JObj [(''fromIndex'', JNum (int msg_switch_index)),
           (''toIndex'', JNum (int kafka_index)),
           (''type'', JStr ''Post telemetry'')]"

text \<open>
  Lines 184-187: \<^verbatim>\<open>any(conn.get("fromIndex") == msg_switch_index and
  conn.get("toIndex") == kafka_index for conn in connections)\<close>. The test of one
  connection reads its two indices and nothing else.
\<close>

fun connects :: "nat \<Rightarrow> nat \<Rightarrow> json \<Rightarrow> py_error + bool" where
  "connects i j (JObj conn) =
     Inr (py_eq_int (dict_get conn ''fromIndex'') (int i) \<and> py_eq_int (dict_get conn ''toIndex'') (int j))"
| "connects i j _ = Inl AttributeError"

fun any_connects :: "nat \<Rightarrow> nat \<Rightarrow> json list \<Rightarrow> py_error + bool" where
  "any_connects i j [] = Inr False"
| "any_connects i j (conn # conns) =
     (case connects i j conn of
        Inl e \<Rightarrow> Inl e
      | Inr True \<Rightarrow> Inr True
      | Inr False \<Rightarrow> any_connects i j conns)"

text \<open>\<^verbatim>\<open>xs.append(x)\<close>: only a list has it among the decoded values.\<close>

fun py_append :: "json \<Rightarrow> json \<Rightarrow> py_error + json" where
  "py_append (JArr xs) x = Inr (JArr (xs @ [x]))"
| "py_append _ x = Inl AttributeError"

text \<open>\<^verbatim>\<open>len(xs)\<close> of a list, a dict or a string.\<close>

fun py_len :: "json \<Rightarrow> nat" where
  "py_len (JArr xs) = length xs"
| "py_len (JObj kvs) = length kvs"
| "py_len (JStr s) = length s"
| "py_len _ = 0"

text \<open>
  Lines 139-192 of \<^verbatim>\<open>ensure_kafka_sink_in_root_chain\<close>: from the fetched metadata
  (after \<^verbatim>\<open>or {}\<close>) to the document that is written, or the exception raised on the way.
\<close>

definition install_kafka_sink :: "env \<Rightarrow> json \<Rightarrow> json \<Rightarrow> py_error + json" where
  "install_kafka_sink ev chain_id metadata =
     (case metadata of
        JObj md \<Rightarrow>
          (let nodes = dict_get_default md ''nodes'' (JArr []);
               connections = py_or (dict_get_default md ''connections'' (JArr [])) (JArr [])
           in case py_iter nodes of
                Inl e \<Rightarrow> Inl e
              | Inr ns \<Rightarrow>
                  (case next_index is_kafka_node 0 ns of
                     Inl e \<Rightarrow> Inl e
                   | Inr kafka_found \<Rightarrow>
                       (case next_index is_switch_node 0 ns of
                          Inl e \<Rightarrow> Inl e
                        | Inr None \<Rightarrow>
                            Inl (RequestError
                                   (Message ''Message Type Switch node not found in root rule chain''))
                        | Inr (Some msg_switch_index) \<Rightarrow>
                            (case (case kafka_found of
                                     Some k \<Rightarrow> Inr (nodes, k)
                                   | None \<Rightarrow>
                                       (case py_append nodes (kafka_node ev chain_id) of
                                          Inl e \<Rightarrow> Inl e
                                        | Inr nodes' \<Rightarrow> Inr (nodes', py_len nodes' - 1))) of
                               Inl e \<Rightarrow> Inl e
                             | Inr (nodes', kafka_index) \<Rightarrow>
                                 (case py_iter connections of
                                    Inl e \<Rightarrow> Inl e
                                  | Inr conns \<Rightarrow>
                                      (case any_connects msg_switch_index kafka_index conns of
                                         Inl e \<Rightarrow> Inl e
                                       | Inr linked \<Rightarrow>
                                           (case (if \<not> linked
                                                  then py_append connections
                                                         (new_connection msg_switch_index kafka_index)
                                                  else Inr connections) of
                                              Inl e \<Rightarrow> Inl e
                                            | Inr connections' \<Rightarrow>
                                                Inr (JObj (dict_set ''connections'' connections'
                                                             (dict_set ''nodes'' nodes' md))))))))))
      | _ \<Rightarrow> Inl AttributeError)"

text \<open>
  Lines 194-207: the write to the primary endpoint, and to the legacy one when the first
  raises \<^verbatim>\<open>RequestError\<close>.
\<close>

definition write_metadata ::
  "'w server \<Rightarrow> string \<Rightarrow> json \<Rightarrow> json \<Rightarrow> 'w session \<Rightarrow> (py_error + json) \<times> 'w session" where
  "write_metadata srv token chain_id metadata st =
     (case http_request srv (RuleChainMetadataOf chain_id) ''POST'' metadata token st of
        (Inl (RequestError _), st1) \<Rightarrow> http_request srv RuleChainMetadata ''POST'' metadata token st1
      | (Inl e, st1) \<Rightarrow> (Inl e, st1)
      | (Inr r, st1) \<Rightarrow> (Inr r, st1))"

definition ensure_kafka_sink_in_root_chain ::
  "'w server \<Rightarrow> env \<Rightarrow> string \<Rightarrow> 'w session \<Rightarrow> (py_error + json) \<times> 'w session" where
  "ensure_kafka_sink_in_root_chain srv ev token st =
     (case find_rule_chain srv token ''Root Rule Chain'' st of
        (Inl e, st1) \<Rightarrow> (Inl e, st1)
      | (Inr root_chain, st1) \<Rightarrow>
          if \<not> py_truthy root_chain
          then (Inl (RequestError (Message ''Root Rule Chain not found'')), st1)
          else (case id_of root_chain of
                  Inl e \<Rightarrow> (Inl e, st1)
                | Inr chain_id \<Rightarrow>
                    (case http_request srv (RuleChainMetadataOf chain_id) ''GET'' JNull token st1 of
                       (Inl e, st2) \<Rightarrow> (Inl e, st2)
                     | (Inr fetched, st2) \<Rightarrow>
                         (case install_kafka_sink ev chain_id (py_or fetched (JObj [])) of
                            Inl e \<Rightarrow> (Inl e, st2)
                          | Inr metadata \<Rightarrow>
                              (case write_metadata srv token chain_id metadata st2 of
                                 (Inl e, st3) \<Rightarrow> (Inl e, st3)
                               | (Inr _, st3) \<Rightarrow> (Inr root_chain, st3))))))"

section \<open>Notions used in the statements\<close>

definition is_dict :: "json \<Rightarrow> bool" where
  "is_dict v = (case v of JObj _ \<Rightarrow> True | _ \<Rightarrow> False)"

definition has_name :: "string \<Rightarrow> json \<Rightarrow> bool" where
  "has_name name v = (case v of JObj kvs \<Rightarrow> dict_get kvs ''name'' = JStr name | _ \<Rightarrow> False)"

definition typed_node :: "json \<Rightarrow> bool" where
  "typed_node v =
     (case v of
        JObj kvs \<Rightarrow> (case map_of kvs ''type'' of None \<Rightarrow> True | Some (JStr _) \<Rightarrow> True | Some _ \<Rightarrow> False)
      | _ \<Rightarrow> False)"

definition type_contains :: "string \<Rightarrow> json \<Rightarrow> bool" where
  "type_contains sub v =
     (case v of
        JObj kvs \<Rightarrow> (case map_of kvs ''type'' of Some (JStr t) \<Rightarrow> str_contains sub t | _ \<Rightarrow> False)
      | _ \<Rightarrow> False)"

definition has_type :: "string \<Rightarrow> json \<Rightarrow> bool" where
  "has_type ty v = (case v of JObj kvs \<Rightarrow> map_of kvs ''type'' = Some (JStr ty) | _ \<Rightarrow> False)"

definition links :: "nat \<Rightarrow> nat \<Rightarrow> json \<Rightarrow> bool" where
  "links i j conn = (connects i j conn = Inr True)"

definition doc_nodes :: "json \<Rightarrow> json list" where
  "doc_nodes doc =
     (case doc of
        JObj md \<Rightarrow> (case map_of md ''nodes'' of Some (JArr ns) \<Rightarrow> ns | _ \<Rightarrow> [])
      | _ \<Rightarrow> [])"

definition doc_connections :: "json \<Rightarrow> json list" where
  "doc_connections doc =
     (case doc of
        JObj md \<Rightarrow> (case map_of md ''connections'' of Some (JArr cs) \<Rightarrow> cs | _ \<Rightarrow> [])
      | _ \<Rightarrow> [])"

fun typed_nodes :: "json option \<Rightarrow> bool" where
  "typed_nodes (Some (JArr ns)) = list_all typed_node ns"
| "typed_nodes _ = False"

fun dict_connections :: "json option \<Rightarrow> bool" where
  "dict_connections None = True"
| "dict_connections (Some JNull) = True"
| "dict_connections (Some (JArr cs)) = list_all is_dict cs"
| "dict_connections _ = False"

fun well_formed :: "json \<Rightarrow> bool" where
  "well_formed (JObj md) = (typed_nodes (map_of md ''nodes'') \<and> dict_connections (map_of md ''connections''))"
| "well_formed _ = False"

definition scripted :: "response list server" where
  "scripted w req = (case w of [] \<Rightarrow> (URLError ''connection refused'', []) | r # rs \<Rightarrow> (r, rs))"

definition demo_env :: env where
  "demo_env = \<lparr> KAFKA_TOPIC = ''tb-telemetry'', KAFKA_BOOTSTRAP = ''kafka:9092'',
                uuid4 = ''0b0e4f2a-0000-4000-8000-000000000001'', time_ms = 1700000000000 \<rparr>"

definition switch_ex :: json where
  "switch_ex = JObj [(''type'', JStr ''org.thingsboard.rule.engine.filter.TbMsgTypeSwitchNode''),
                     (''name'', JStr ''Message Type Switch'')]"

definition sink_ex :: json where
  "sink_ex = JObj [(''type'', JStr ''org.thingsboard.rule.engine.kafka.TbKafkaNode''),
                   (''name'', JStr ''Kafka sink'')]"

definition save_ex :: json where
  "save_ex = JObj [(''type'', JStr ''org.thingsboard.rule.engine.telemetry.TbMsgTimeseriesNode''),
                   (''name'', JStr ''Save Timeseries'')]"

definition edge_ex :: "int \<Rightarrow> int \<Rightarrow> string \<Rightarrow> json" where
  "edge_ex i j label = JObj [(''fromIndex'', JNum i), (''toIndex'', JNum j), (''type'', JStr label)]"

definition doc_ex :: "json list \<Rightarrow> json list \<Rightarrow> json" where
  "doc_ex ns cs = JObj [(''ruleChainId'', JStr ''rc-1''), (''nodes'', JArr ns), (''connections'', JArr cs)]"


definition routing_label :: string where
  "routing_label = ''Post telemetry''"

definition routes :: "nat \<Rightarrow> nat \<Rightarrow> json \<Rightarrow> bool" where
  "routes i j conn = (links i j conn \<and> has_type routing_label conn)"

definition other_label_doc :: json where
  "other_label_doc = doc_ex [switch_ex, sink_ex] [edge_ex 0 1 ''Post attributes'']"

definition twice :: "env \<Rightarrow> json \<Rightarrow> json \<Rightarrow> py_error + json" where
  "twice ev chain_id doc =
     (case install_kafka_sink ev chain_id doc of
        Inl e \<Rightarrow> Inl e
      | Inr written \<Rightarrow> install_kafka_sink ev chain_id written)"


definition grow_doc :: json where
  "grow_doc = doc_ex [save_ex, switch_ex] [edge_ex 1 0 ''Post telemetry'']"

definition grown_doc :: json where
  "grown_doc = doc_ex [save_ex, switch_ex, kafka_node demo_env (JStr ''rc-1'')]
                      [edge_ex 1 0 ''Post telemetry'', new_connection 1 2]"


fun request_failed :: "response \<Rightarrow> bool" where
  "request_failed (HTTPError code detail) = True"
| "request_failed (URLError err) = True"
| "request_failed _ = False"

definition root_page_ex :: json where
  "root_page_ex =
     JObj [(''data'', JArr [JObj [(''name'', JStr ''Root Rule Chain v2''),
                                  (''id'', JObj [(''entityType'', JStr ''RULE_CHAIN''), (''id'', JStr ''rc-2'')])],
                            JObj [(''name'', JStr ''Root Rule Chain''),
                                  (''id'', JObj [(''entityType'', JStr ''RULE_CHAIN''), (''id'', JStr ''rc-1'')])]]),
           (''totalElements'', JNum 2)]"

definition root_chain_ex :: json where
  "root_chain_ex = JObj [(''name'', JStr ''Root Rule Chain''),
                         (''id'', JObj [(''entityType'', JStr ''RULE_CHAIN''), (''id'', JStr ''rc-1'')])]"

definition no_switch_doc :: json where
  "no_switch_doc = doc_ex [save_ex, sink_ex] [edge_ex 0 1 ''Success'']"


definition record_fields :: "json \<Rightarrow> (string \<times> json) list" where
  "record_fields v = (case v of JObj kvs \<Rightarrow> kvs | _ \<Rightarrow> [])"

definition carries_id :: "json \<Rightarrow> bool" where
  "carries_id credentials =
     (py_truthy credentials \<and> py_truthy (dict_get (record_fields credentials) ''id''))"

definition own_device_ref :: "json \<Rightarrow> json" where
  "own_device_ref dev_id = JObj [(''entityType'', JStr ''DEVICE''), (''id'', dev_id)]"

definition is_create :: "request \<Rightarrow> bool" where
  "is_create r = (req_path r = Device \<and> req_method r = ''POST'')"

definition is_upsert :: "request \<Rightarrow> bool" where
  "is_upsert r = (req_path r = DeviceCredentials \<and> req_method r = ''POST'')"

definition payload_fields :: "request \<Rightarrow> (string \<times> json) list" where
  "payload_fields r = (case req_data r of Some (JObj kvs) \<Rightarrow> kvs | _ \<Rightarrow> [])"

definition is_fresh_upsert :: "request \<Rightarrow> bool" where
  "is_fresh_upsert r = (is_upsert r \<and> map_of (payload_fields r) ''id'' = None)"

definition device_ex :: json where
  "device_ex = JObj [(''id'', JObj [(''entityType'', JStr ''DEVICE''), (''id'', JStr ''dev-1'')]),
                     (''name'', JStr ''drone-1''), (''type'', JStr ''drone'')]"

definition cred_ex :: json where
  "cred_ex = JObj [(''id'', JObj [(''id'', JStr ''cred-1'')]),
                   (''deviceId'', JObj [(''entityType'', JStr ''DEVICE''), (''id'', JStr ''dev-1'')]),
                   (''credentialsType'', JStr ''ACCESS_TOKEN''),
                   (''credentialsId'', JStr ''generated-by-platform'')]"

definition empty_page_ex :: json where
  "empty_page_ex = JObj [(''data'', JArr []), (''totalElements'', JNum 0)]"

definition device_page_ex :: json where
  "device_page_ex =
     JObj [(''data'', JArr [JObj [(''id'', JObj [(''entityType'', JStr ''DEVICE''), (''id'', JStr ''dev-7'')]),
                                  (''name'', JStr ''drone-10'')],
                            device_ex]),
           (''totalElements'', JNum 2)]"


definition fleet_script :: "response list" where
  "fleet_script = [Body empty_page_ex, Body device_ex, Body JNull, Body cred_ex,
                   Body device_page_ex, Body cred_ex, Body cred_ex]"

definition after_first_run :: "response list session" where
  "after_first_run =
     \<lparr> world = [Body device_page_ex, Body cred_ex, Body cred_ex],
       sent = [build_request (TenantDevices ''drone-1'') ''GET'' JNull ''tok'',
               build_request Device ''POST'' (JObj [(''name'', JStr ''drone-1''), (''type'', JStr ''drone'')]) ''tok'',
               build_request (DeviceCredentialsOf (JStr ''dev-1'')) ''GET'' JNull ''tok'',
               build_request DeviceCredentials ''POST''
                 (JObj [(''credentialsType'', JStr ''ACCESS_TOKEN''),
                        (''credentialsId'', JStr ''secret-1''),
                        (''deviceId'', JObj [(''entityType'', JStr ''DEVICE''), (''id'', JStr ''dev-1'')])])
                 ''tok''] \<rparr>"

section \<open>Properties\<close>

lemma dict_get_default_set_same [simp]:
  "dict_get_default (dict_set k v kvs) k d = v"
  by (simp add: dict_get_default_def dict_set_def update_conv')

lemma dict_get_default_set_other [simp]:
  "k' \<noteq> k \<Longrightarrow> dict_get_default (dict_set k v kvs) k' d = dict_get_default kvs k' d"
  by (simp add: dict_get_default_def dict_set_def update_conv')

lemma map_of_dict_set: "map_of (dict_set k v kvs) = (map_of kvs)(k \<mapsto> v)"
  by (simp add: dict_set_def update_conv')

lemma dict_set_triv: "map_of kvs k = Some v \<Longrightarrow> dict_set k v kvs = kvs"
  by (simp add: dict_set_def update_triv)

lemma next_index_range:
  "next_index p i xs = Inr (Some k) \<Longrightarrow> i \<le> k \<and> k < i + length xs"
  by (induction xs arbitrary: i) (fastforce split: sum.splits bool.splits)+

lemma next_index_hit:
  "next_index p i xs = Inr (Some k) \<Longrightarrow> p (xs ! (k - i)) = Inr True"
proof (induction xs arbitrary: i)
  case Nil
  then show ?case by simp
next
  case (Cons x xs)
  show ?case
  proof (cases "p x")
    case (Inl e)
    with Cons.prems show ?thesis by simp
  next
    case (Inr b)
    show ?thesis
    proof (cases b)
      case True
      with Inr Cons.prems show ?thesis by simp
    next
      case False
      with Inr Cons.prems have rec: "next_index p (Suc i) xs = Inr (Some k)" by simp
      then have "Suc i \<le> k" using next_index_range by blast
      then have "k - i = Suc (k - Suc i)" by simp
      with Cons.IH [OF rec] show ?thesis by simp
    qed
  qed
qed

lemma next_index_None:
  "next_index p i xs = Inr None \<Longrightarrow> \<forall>x \<in> set xs. p x = Inr False"
  by (induction xs arbitrary: i) (auto split: sum.splits bool.splits)

lemma next_index_append_Some:
  "next_index p i xs = Inr (Some k) \<Longrightarrow> next_index p i (xs @ ys) = Inr (Some k)"
  by (induction xs arbitrary: i) (auto split: sum.splits bool.splits)

lemma next_index_append_None:
  "next_index p i xs = Inr None \<Longrightarrow> next_index p i (xs @ ys) = next_index p (i + length xs) ys"
  by (induction xs arbitrary: i) (auto split: sum.splits bool.splits)

lemma next_index_head_dict:
  "next_index is_kafka_node i (x # xs) = Inr r \<Longrightarrow> is_dict x"
  by (cases x) (auto simp: is_dict_def)

lemma any_connects_append_True:
  "any_connects i j cs = Inr True \<Longrightarrow> any_connects i j (cs @ ys) = Inr True"
  by (induction cs) (auto split: sum.splits bool.splits)

lemma any_connects_append_False:
  "any_connects i j cs = Inr False \<Longrightarrow> any_connects i j (cs @ ys) = any_connects i j ys"
  by (induction cs) (auto split: sum.splits bool.splits)

lemma any_connects_False_filter:
  "any_connects i j cs = Inr False \<Longrightarrow> filter (links i j) cs = []"
  by (induction cs) (auto simp: links_def split: sum.splits bool.splits)

lemma any_connects_True_filter:
  "any_connects i j cs = Inr True \<Longrightarrow> filter (links i j) cs \<noteq> []"
  by (induction cs) (auto simp: links_def split: sum.splits bool.splits)

lemma any_connects_head_dict:
  "any_connects i j (c # cs) = Inr r \<Longrightarrow> is_dict c"
  by (cases c) (auto simp: is_dict_def)

lemma connects_new_connection [simp]: "connects i j (new_connection i j) = Inr True"
  by (simp add: new_connection_def dict_get_def dict_get_default_def)

lemma is_kafka_node_kafka_node [simp]: "is_kafka_node (kafka_node ev cid) = Inr True"
  by (simp add: kafka_node_def dict_get_def dict_get_default_def)

lemma is_switch_node_kafka_node [simp]: "is_switch_node (kafka_node ev cid) = Inr False"
  by (simp add: kafka_node_def dict_get_default_def kafka_type_def switch_substring_def)

lemma py_iter_dicts:
  "py_iter v = Inr (x # xs) \<Longrightarrow> is_dict x \<Longrightarrow> v = JArr (x # xs)"
  by (cases v) (auto simp: is_dict_def)

lemma py_or_list_cases:
  "py_or v (JArr []) = JArr cs \<Longrightarrow> (v = JArr cs \<and> cs \<noteq> []) \<or> (\<not> py_truthy v \<and> cs = [])"
  by (auto simp: py_or_def split: if_splits)


lemma py_or_list_shape: "py_or v (JArr []) = c \<Longrightarrow> c = JArr [] \<or> py_truthy c"
  by (auto simp: py_or_def split: if_splits)

lemma py_iter_Nil_truthy: "py_iter c = Inr [] \<Longrightarrow> py_truthy c \<Longrightarrow> False"
  by (cases c) auto

lemma py_len_append: "py_append (JArr ns) x = Inr v \<Longrightarrow> py_len v - 1 = length ns"
  by auto

lemma install_kafka_sink_Inr:
  assumes "install_kafka_sink ev cid doc = Inr out"
  obtains md ns cs kf s linked where
    "doc = JObj md"
    "dict_get_default md ''nodes'' (JArr []) = JArr ns"
    "py_or (dict_get_default md ''connections'' (JArr [])) (JArr []) = JArr cs"
    "next_index is_kafka_node 0 ns = Inr kf"
    "next_index is_switch_node 0 ns = Inr (Some s)"
    "any_connects s (case kf of Some k \<Rightarrow> k | None \<Rightarrow> length ns) cs = Inr linked"
    "out = JObj (dict_set ''connections''
                   (JArr (cs @ (if linked then []
                                else [new_connection s (case kf of Some k \<Rightarrow> k | None \<Rightarrow> length ns)])))
                   (dict_set ''nodes''
                      (JArr (ns @ (case kf of Some k \<Rightarrow> [] | None \<Rightarrow> [kafka_node ev cid]))) md))"
proof -
  from assms obtain md where doc: "doc = JObj md"
    by (cases doc) (simp_all add: install_kafka_sink_def)
  define nodes where "nodes = dict_get_default md ''nodes'' (JArr [])"
  define connections where
    "connections = py_or (dict_get_default md ''connections'' (JArr [])) (JArr [])"
  note unfolded = assms [unfolded install_kafka_sink_def doc json.case Let_def,
      folded nodes_def connections_def]
  from unfolded obtain ns where ns: "py_iter nodes = Inr ns"
    by (cases "py_iter nodes") simp_all
  from unfolded ns obtain kf where kf: "next_index is_kafka_node 0 ns = Inr kf"
    by (cases "next_index is_kafka_node 0 ns") simp_all
  from unfolded ns kf obtain s where s: "next_index is_switch_node 0 ns = Inr (Some s)"
    by (cases "next_index is_switch_node 0 ns") (auto split: option.splits)
  from s have "ns \<noteq> []" by auto
  then obtain x xs where cons: "ns = x # xs" by (cases ns) auto
  with kf have "is_dict x" using next_index_head_dict by blast
  with ns cons have nodes: "nodes = JArr ns" using py_iter_dicts by blast
  define k where "k = (case kf of Some k \<Rightarrow> k | None \<Rightarrow> length ns)"
  define nodes' where
    "nodes' = JArr (ns @ (case kf of Some k \<Rightarrow> [] | None \<Rightarrow> [kafka_node ev cid]))"
  have step: "(case kf of
                 Some k \<Rightarrow> Inr (nodes, k)
               | None \<Rightarrow>
                   (case py_append nodes (kafka_node ev cid) of
                      Inl e \<Rightarrow> Inl e
                    | Inr nodes' \<Rightarrow> Inr (nodes', py_len nodes' - 1))) = Inr (nodes', k)"
    by (cases kf) (simp_all add: nodes nodes'_def k_def)
  from unfolded ns kf s step obtain cs where cs: "py_iter connections = Inr cs"
    by (cases "py_iter connections") simp_all
  from unfolded ns kf s step cs obtain linked where linked: "any_connects s k cs = Inr linked"
    by (cases "any_connects s k cs") simp_all
  have conns: "connections = JArr cs"
  proof (cases cs)
    case Nil
    with cs py_iter_Nil_truthy have "\<not> py_truthy connections" by blast
    with py_or_list_shape [OF connections_def [symmetric]] Nil show ?thesis by simp
  next
    case (Cons c cs')
    with linked have "is_dict c" using any_connects_head_dict by blast
    with cs Cons show ?thesis using py_iter_dicts by blast
  qed
  from unfolded ns kf s step cs linked conns
  have out: "out = JObj (dict_set ''connections''
                   (JArr (cs @ (if linked then [] else [new_connection s k])))
                   (dict_set ''nodes'' nodes' md))"
    by (cases linked) auto
  show thesis
    using that [of md ns cs kf s linked] doc nodes conns kf s linked out
    unfolding nodes_def connections_def k_def nodes'_def by simp
qed

lemma install_kafka_sink_total:
  assumes "map_of md ''nodes'' = Some (JArr ns)"
    and "py_or (dict_get_default md ''connections'' (JArr [])) (JArr []) = JArr cs"
    and "next_index is_kafka_node 0 ns = Inr kf"
    and "next_index is_switch_node 0 ns = Inr (Some s)"
    and "any_connects s (case kf of Some k \<Rightarrow> k | None \<Rightarrow> length ns) cs = Inr linked"
  shows "install_kafka_sink ev cid (JObj md) =
           Inr (JObj (dict_set ''connections''
                   (JArr (cs @ (if linked then []
                                else [new_connection s (case kf of Some k \<Rightarrow> k | None \<Rightarrow> length ns)])))
                   (dict_set ''nodes''
                      (JArr (ns @ (case kf of Some k \<Rightarrow> [] | None \<Rightarrow> [kafka_node ev cid]))) md)))"
  using assms
  by (cases kf; cases linked) (simp_all add: install_kafka_sink_def dict_get_default_def)


lemma doc_nodes_eq:
  "dict_get_default md ''nodes'' (JArr []) = JArr ns \<Longrightarrow> doc_nodes (JObj md) = ns"
  by (auto simp: doc_nodes_def dict_get_default_def split: option.splits)

lemma doc_connections_eq:
  "py_or (dict_get_default md ''connections'' (JArr [])) (JArr []) = JArr cs \<Longrightarrow>
   doc_connections (JObj md) = cs"
  by (auto simp: doc_connections_def dict_get_default_def py_or_def
           split: option.splits json.splits if_splits)

lemma doc_nodes_out:
  "doc_nodes (JObj (dict_set ''connections'' c (dict_set ''nodes'' (JArr ns) md))) = ns"
  by (simp add: doc_nodes_def map_of_dict_set)

lemma doc_connections_out:
  "doc_connections (JObj (dict_set ''connections'' (JArr cs) md)) = cs"
  by (simp add: doc_connections_def map_of_dict_set)

lemma py_getitem_out:
  "key \<noteq> ''nodes'' \<Longrightarrow> key \<noteq> ''connections'' \<Longrightarrow>
   py_getitem (JObj (dict_set ''connections'' c (dict_set ''nodes'' n md))) key = py_getitem (JObj md) key"
  by (simp add: map_of_dict_set)

lemma install_kafka_sink_appends:
  assumes "install_kafka_sink ev cid doc = Inr out"
  obtains en ec where
    "doc_nodes out = doc_nodes doc @ en" "length en \<le> 1"
    "doc_connections out = doc_connections doc @ ec" "length ec \<le> 1"
proof -
  from assms obtain md ns cs kf s linked where
    doc: "doc = JObj md"
    and ns: "dict_get_default md ''nodes'' (JArr []) = JArr ns"
    and cs: "py_or (dict_get_default md ''connections'' (JArr [])) (JArr []) = JArr cs"
    and out: "out = JObj (dict_set ''connections''
                   (JArr (cs @ (if linked then []
                                else [new_connection s (case kf of Some k \<Rightarrow> k | None \<Rightarrow> length ns)])))
                   (dict_set ''nodes''
                      (JArr (ns @ (case kf of Some k \<Rightarrow> [] | None \<Rightarrow> [kafka_node ev cid]))) md))"
    by (rule install_kafka_sink_Inr)
  show thesis
  proof (rule that)
    show "doc_nodes out = doc_nodes doc @ (case kf of Some k \<Rightarrow> [] | None \<Rightarrow> [kafka_node ev cid])"
      by (simp only: out doc doc_nodes_out doc_nodes_eq [OF ns])
    show "length (case kf of Some k \<Rightarrow> [] | None \<Rightarrow> [kafka_node ev cid]) \<le> 1"
      by (cases kf) simp_all
    show "doc_connections out = doc_connections doc @
            (if linked then [] else [new_connection s (case kf of Some k \<Rightarrow> k | None \<Rightarrow> length ns)])"
      by (simp only: out doc doc_connections_out doc_connections_eq [OF cs])
    show "length (if linked then [] else [new_connection s (case kf of Some k \<Rightarrow> k | None \<Rightarrow> length ns)]) \<le> 1"
      by simp
  qed
qed

text \<open>
  Claim C9. Whenever lines 139-192 produce a document to write, its node sequence is the
  fetched one with at most one node added at the end, its connection sequence is the
  fetched one with at most one connection added at the end, and every other field of the
  document is the fetched one. Nothing is removed, changed or moved; nodes of the sink or
  dispatch type beyond the first stay where they are.
\<close>

theorem written_document_appends_only:
  assumes "install_kafka_sink ev cid doc = Inr out"
  shows "(\<exists>en ec. doc_nodes out = doc_nodes doc @ en \<and> length en \<le> 1
                \<and> doc_connections out = doc_connections doc @ ec \<and> length ec \<le> 1)
       \<and> (\<forall>key. key \<noteq> ''nodes'' \<and> key \<noteq> ''connections'' \<longrightarrow> py_getitem out key = py_getitem doc key)"
proof
  from assms show "\<exists>en ec. doc_nodes out = doc_nodes doc @ en \<and> length en \<le> 1
                \<and> doc_connections out = doc_connections doc @ ec \<and> length ec \<le> 1"
    by (rule install_kafka_sink_appends) blast
  from assms show "\<forall>key. key \<noteq> ''nodes'' \<and> key \<noteq> ''connections'' \<longrightarrow> py_getitem out key = py_getitem doc key"
    by (rule install_kafka_sink_Inr) (simp add: map_of_dict_set)
qed

text \<open>
  Claim C2. Whenever lines 139-192 produce a document, every connection of the fetched
  document is at the same position and unchanged in the produced one (so its
  \<^verbatim>\<open>fromIndex\<close> and \<^verbatim>\<open>toIndex\<close> are the same), and every index below the fetched node count
  refers to the same node as before.
\<close>

theorem existing_edges_keep_indices:
  assumes "install_kafka_sink ev cid doc = Inr out"
  shows "length (doc_nodes doc) \<le> length (doc_nodes out)
       \<and> (\<forall>j < length (doc_nodes doc). doc_nodes out ! j = doc_nodes doc ! j)
       \<and> length (doc_connections doc) \<le> length (doc_connections out)
       \<and> (\<forall>i < length (doc_connections doc). doc_connections out ! i = doc_connections doc ! i)"
proof -
  from assms obtain en ec where
    "doc_nodes out = doc_nodes doc @ en" "doc_connections out = doc_connections doc @ ec"
    by (rule install_kafka_sink_appends)
  then show ?thesis by (simp add: nth_append)
qed


lemma install_grow_doc: "install_kafka_sink demo_env (JStr ''rc-1'') grow_doc = Inr grown_doc"
  by code_simp

theorem written_document_appends_only_witness:
  "install_kafka_sink demo_env (JStr ''rc-1'') grow_doc = Inr grown_doc
   \<and> (\<exists>en ec. doc_nodes grown_doc = doc_nodes grow_doc @ en \<and> length en \<le> 1
                \<and> doc_connections grown_doc = doc_connections grow_doc @ ec \<and> length ec \<le> 1)
   \<and> py_getitem grown_doc ''ruleChainId'' = py_getitem grow_doc ''ruleChainId''"
  using written_document_appends_only [OF install_grow_doc] install_grow_doc by simp

theorem existing_edges_keep_indices_witness:
  "install_kafka_sink demo_env (JStr ''rc-1'') grow_doc = Inr grown_doc
   \<and> doc_connections grown_doc ! 0 = doc_connections grow_doc ! 0
   \<and> doc_nodes grown_doc ! 0 = doc_nodes grow_doc ! 0
   \<and> doc_nodes grown_doc ! 1 = doc_nodes grow_doc ! 1"
proof -
  have n: "length (doc_nodes grow_doc) = 2" and c: "length (doc_connections grow_doc) = 1"
    by (simp_all add: grow_doc_def doc_ex_def doc_nodes_def doc_connections_def)
  from existing_edges_keep_indices [OF install_grow_doc] n c install_grow_doc
  show ?thesis by simp
qed


lemma is_kafka_node_True: "is_kafka_node v = Inr True \<longleftrightarrow> has_type kafka_type v"
  by (cases v) (auto simp: has_type_def dict_get_def dict_get_default_def split: option.splits)

lemma is_kafka_node_False: "is_kafka_node v = Inr False \<Longrightarrow> \<not> has_type kafka_type v"
  using is_kafka_node_True [of v] by simp

lemma py_or_list [simp]: "py_or (JArr cs) (JArr []) = JArr cs"
  by (simp add: py_or_def)

text \<open>The indices and the test of the link, read off the produced document.\<close>

lemma install_kafka_sink_result:
  assumes "install_kafka_sink ev cid doc = Inr out"
  obtains md s k where
    "out = JObj md"
    "map_of md ''nodes'' = Some (JArr (doc_nodes out))"
    "map_of md ''connections'' = Some (JArr (doc_connections out))"
    "next_index is_switch_node 0 (doc_nodes out) = Inr (Some s)"
    "next_index is_kafka_node 0 (doc_nodes out) = Inr (Some k)"
    "any_connects s k (doc_connections out) = Inr True"
proof -
  from assms obtain md ns cs kf s linked where
    kf: "next_index is_kafka_node 0 ns = Inr kf"
    and s: "next_index is_switch_node 0 ns = Inr (Some s)"
    and linked: "any_connects s (case kf of Some k \<Rightarrow> k | None \<Rightarrow> length ns) cs = Inr linked"
    and out: "out = JObj (dict_set ''connections''
                   (JArr (cs @ (if linked then []
                                else [new_connection s (case kf of Some k \<Rightarrow> k | None \<Rightarrow> length ns)])))
                   (dict_set ''nodes''
                      (JArr (ns @ (case kf of Some k \<Rightarrow> [] | None \<Rightarrow> [kafka_node ev cid]))) md))"
    by (rule install_kafka_sink_Inr)
  define k where "k = (case kf of Some k \<Rightarrow> k | None \<Rightarrow> length ns)"
  define ns' where "ns' = ns @ (case kf of Some k \<Rightarrow> [] | None \<Rightarrow> [kafka_node ev cid])"
  define cs' where "cs' = cs @ (if linked then [] else [new_connection s k])"
  define md' where "md' = dict_set ''connections'' (JArr cs') (dict_set ''nodes'' (JArr ns') md)"
  have out': "out = JObj md'"
    by (simp add: out md'_def cs'_def ns'_def k_def)
  have nodes: "doc_nodes out = ns'" and conns: "doc_connections out = cs'"
    by (simp_all add: out' md'_def doc_nodes_out doc_connections_out)
  have "next_index is_kafka_node 0 ns' = Inr (Some k)"
  proof (cases kf)
    case None
    with kf show ?thesis by (simp add: ns'_def k_def next_index_append_None)
  next
    case (Some j)
    with kf show ?thesis by (simp add: ns'_def k_def)
  qed
  moreover have "next_index is_switch_node 0 ns' = Inr (Some s)"
    using s by (simp add: ns'_def next_index_append_Some)
  moreover have "any_connects s k cs' = Inr True"
    using linked by (cases linked) (simp_all add: cs'_def k_def any_connects_append_False)
  moreover have "map_of md' ''nodes'' = Some (JArr ns')" "map_of md' ''connections'' = Some (JArr cs')"
    by (simp_all add: md'_def map_of_dict_set)
  ultimately show thesis
    using that [of md' s k] out' nodes conns by simp
qed

lemma install_kafka_sink_fixpoint:
  assumes "install_kafka_sink ev cid doc = Inr out"
  shows "install_kafka_sink ev' cid' out = Inr out"
proof -
  from assms obtain md s k where
    out: "out = JObj md"
    and nodes: "map_of md ''nodes'' = Some (JArr (doc_nodes out))"
    and conns: "map_of md ''connections'' = Some (JArr (doc_connections out))"
    and s: "next_index is_switch_node 0 (doc_nodes out) = Inr (Some s)"
    and k: "next_index is_kafka_node 0 (doc_nodes out) = Inr (Some k)"
    and linked: "any_connects s k (doc_connections out) = Inr True"
    by (rule install_kafka_sink_result)
  from conns have or: "py_or (dict_get_default md ''connections'' (JArr [])) (JArr []) = JArr (doc_connections out)"
    by (simp add: dict_get_default_def)
  from linked have linked': "any_connects s (case Some k of Some k \<Rightarrow> k | None \<Rightarrow> length (doc_nodes out))
                               (doc_connections out) = Inr True"
    by simp
  have "install_kafka_sink ev' cid' (JObj md) = Inr (JObj md)"
    using install_kafka_sink_total [OF nodes or k s linked', of ev' cid']
    by (simp add: dict_set_triv [OF nodes] dict_set_triv [OF conns])
  then show ?thesis by (simp add: out)
qed

lemma sink_count:
  assumes "install_kafka_sink ev cid doc = Inr out"
  shows "length (filter (has_type kafka_type) (doc_nodes out)) =
           max 1 (length (filter (has_type kafka_type) (doc_nodes doc)))"
proof -
  from assms obtain md ns cs kf s linked where
    doc: "doc = JObj md"
    and ns: "dict_get_default md ''nodes'' (JArr []) = JArr ns"
    and kf: "next_index is_kafka_node 0 ns = Inr kf"
    and out: "out = JObj (dict_set ''connections''
                   (JArr (cs @ (if linked then []
                                else [new_connection s (case kf of Some k \<Rightarrow> k | None \<Rightarrow> length ns)])))
                   (dict_set ''nodes''
                      (JArr (ns @ (case kf of Some k \<Rightarrow> [] | None \<Rightarrow> [kafka_node ev cid]))) md))"
    by (rule install_kafka_sink_Inr)
  have before: "doc_nodes doc = ns" by (simp add: doc doc_nodes_eq [OF ns])
  have after: "doc_nodes out = ns @ (case kf of Some k \<Rightarrow> [] | None \<Rightarrow> [kafka_node ev cid])"
    by (simp only: out doc_nodes_out)
  show ?thesis
  proof (cases kf)
    case None
    with kf have "\<forall>x \<in> set ns. is_kafka_node x = Inr False" using next_index_None by blast
    then have "filter (has_type kafka_type) ns = []"
      by (auto simp: filter_empty_conv dest: is_kafka_node_False)
    moreover have "has_type kafka_type (kafka_node ev cid)"
      using is_kafka_node_True [of "kafka_node ev cid"] by simp
    ultimately show ?thesis by (simp add: before after None)
  next
    case (Some j)
    with kf have "is_kafka_node (ns ! j) = Inr True" and "j < length ns"
      using next_index_hit [of is_kafka_node 0 ns j] next_index_range [of is_kafka_node 0 ns j] by simp_all
    then have "ns ! j \<in> set (filter (has_type kafka_type) ns)"
      by (simp add: is_kafka_node_True)
    then have "filter (has_type kafka_type) ns \<noteq> []"
      by (metis empty_iff empty_set)
    then have "max 1 (length (filter (has_type kafka_type) ns)) = length (filter (has_type kafka_type) ns)"
      by (cases "filter (has_type kafka_type) ns") simp_all
    then show ?thesis by (simp only: before after Some option.case append_Nil2)
  qed
qed


text \<open>
  Claim C4, at the document of claim C1, which has one node of the sink type and a
  connection from the dispatch node to it with another label. The second run fetches
  what the first wrote. Both runs produce the fetched document unchanged, so after two
  runs the graph has its one node of the sink type and still no connection
  \<open>(0, 1, Post telemetry)\<close>, where the claim says exactly one.
\<close>

theorem two_runs_leave_label_missing:
  "twice demo_env (JStr ''rc-1'') other_label_doc = Inr other_label_doc
   \<and> length (filter (has_type kafka_type) (doc_nodes other_label_doc)) = 1
   \<and> length (filter (routes 0 1) (doc_connections other_label_doc)) = 0"
  by code_simp

text \<open>
  Claim C1, at a document where the dispatch node is connected to the sink node by a
  connection with another label: the test of lines 184-187 compares the two indices only,
  so nothing is appended and the produced document has no connection with the routing
  label between the two.
\<close>

theorem other_label_blocks_link:
  "filter (routes 0 1) (doc_connections other_label_doc) = []
   \<and> install_kafka_sink demo_env (JStr ''rc-1'') other_label_doc = Inr other_label_doc"
  by code_simp


subsection \<open>Requests\<close>

lemma http_request_eq:
  "srv (world st) (build_request path method payload token) = (resp, w') \<Longrightarrow>
   http_request srv path method payload token st =
     (response_result path resp,
      \<lparr> world = w', sent = sent st @ [build_request path method payload token] \<rparr>)"
  by (simp add: http_request_def)



lemma write_metadata_primary_ok:
  assumes "srv (world st) (build_request (RuleChainMetadataOf cid) ''POST'' m token) = (resp1, w1)"
    and "\<not> request_failed resp1"
  shows "write_metadata srv token cid m st =
           (response_result (RuleChainMetadataOf cid) resp1,
            \<lparr> world = w1, sent = sent st @ [build_request (RuleChainMetadataOf cid) ''POST'' m token] \<rparr>)"
  using assms by (cases resp1) (simp_all add: write_metadata_def http_request_eq)

lemma write_metadata_primary_failed:
  assumes "srv (world st) (build_request (RuleChainMetadataOf cid) ''POST'' m token) = (resp1, w1)"
    and "request_failed resp1"
    and "srv w1 (build_request RuleChainMetadata ''POST'' m token) = (resp2, w2)"
  shows "write_metadata srv token cid m st =
           (response_result RuleChainMetadata resp2,
            \<lparr> world = w2, sent = sent st @ [build_request (RuleChainMetadataOf cid) ''POST'' m token,
                                              build_request RuleChainMetadata ''POST'' m token] \<rparr>)"
  using assms by (cases resp1) (simp_all add: write_metadata_def http_request_eq)



subsection \<open>Well-formed documents\<close>

lemma typed_node_is_switch:
  "typed_node n \<Longrightarrow> is_switch_node n = Inr (type_contains switch_substring n)"
  by (cases n)
     (auto simp: typed_node_def type_contains_def dict_get_default_def switch_substring_def
           split: option.splits json.splits)

lemma typed_node_is_kafka: "typed_node n \<Longrightarrow> \<exists>b. is_kafka_node n = Inr b"
  by (cases n) (auto simp: typed_node_def)

lemma next_index_returns:
  "\<forall>x \<in> set xs. \<exists>b. p x = Inr b \<Longrightarrow> \<exists>r. next_index p i xs = Inr r"
proof (induction xs arbitrary: i)
  case Nil
  then show ?case by simp
next
  case (Cons x xs)
  then obtain b where "p x = Inr b" by auto
  with Cons show ?case by (cases b) auto
qed

lemma next_index_decides:
  "\<forall>x \<in> set xs. p x = Inr (q x) \<Longrightarrow>
   (if list_ex q xs then \<exists>k. next_index p i xs = Inr (Some k) else next_index p i xs = Inr None)"
proof (induction xs arbitrary: i)
  case Nil
  then show ?case by simp
next
  case (Cons x xs)
  then have px: "p x = Inr (q x)" and rest: "\<forall>y \<in> set xs. p y = Inr (q y)" by simp_all
  show ?case
  proof (cases "q x")
    case True
    with px show ?thesis by simp
  next
    case False
    with px Cons.IH [OF rest, of "Suc i"] show ?thesis by simp
  qed
qed

lemma any_connects_returns: "list_all is_dict cs \<Longrightarrow> \<exists>b. any_connects i j cs = Inr b"
proof (induction cs)
  case Nil
  show ?case by (rule exI [of _ False]) simp
next
  case (Cons c cs)
  then obtain kvs where "c = JObj kvs" by (cases c) (auto simp: is_dict_def)
  define b where
    "b = (py_eq_int (dict_get kvs ''fromIndex'') (int i) \<and> py_eq_int (dict_get kvs ''toIndex'') (int j))"
  have b: "connects i j c = Inr b" by (simp add: b_def \<open>c = JObj kvs\<close>)
  from Cons obtain b' where "any_connects i j cs = Inr b'" by auto
  with b show ?case by (cases b) auto
qed

lemma dict_connections_list:
  assumes "dict_connections (map_of md ''connections'')"
  shows "\<exists>cs. py_or (dict_get_default md ''connections'' (JArr [])) (JArr []) = JArr cs
            \<and> list_all is_dict cs"
proof (cases "map_of md ''connections''")
  case None
  then show ?thesis by (simp add: dict_get_default_def)
next
  case (Some v)
  with assms show ?thesis
    by (cases v) (simp_all add: dict_get_default_def py_or_def)
qed

lemma install_kafka_sink_no_switch:
  assumes "dict_get_default md ''nodes'' (JArr []) = JArr ns"
    and "list_all typed_node ns"
    and "\<not> list_ex (type_contains switch_substring) ns"
  shows "install_kafka_sink ev cid (JObj md) =
           Inl (RequestError (Message ''Message Type Switch node not found in root rule chain''))"
proof -
  from assms(2) obtain kf where "next_index is_kafka_node 0 ns = Inr kf"
    using next_index_returns [of ns is_kafka_node 0] typed_node_is_kafka
    by (auto simp: list_all_iff)
  moreover from assms(2,3) have "next_index is_switch_node 0 ns = Inr None"
    using next_index_decides [of ns is_switch_node "type_contains switch_substring" 0]
    by (simp add: list_all_iff typed_node_is_switch)
  ultimately show ?thesis
    using assms(1) by (simp add: install_kafka_sink_def)
qed

lemma install_kafka_sink_returns:
  assumes "well_formed doc" and "list_ex (type_contains switch_substring) (doc_nodes doc)"
  shows "\<exists>out. install_kafka_sink ev cid doc = Inr out"
proof -
  from assms(1) obtain md where doc: "doc = JObj md"
    and tn: "typed_nodes (map_of md ''nodes'')" and dc: "dict_connections (map_of md ''connections'')"
    by (cases doc) simp_all
  from tn obtain ns where nodes: "map_of md ''nodes'' = Some (JArr ns)" and typed: "list_all typed_node ns"
    by (auto elim: typed_nodes.elims)
  from dc obtain cs where
    conns: "py_or (dict_get_default md ''connections'' (JArr [])) (JArr []) = JArr cs"
    and dicts: "list_all is_dict cs"
    using dict_connections_list by blast
  from typed obtain kf where kf: "next_index is_kafka_node 0 ns = Inr kf"
    using next_index_returns [of ns is_kafka_node 0] typed_node_is_kafka
    by (auto simp: list_all_iff)
  from assms(2) doc nodes have "list_ex (type_contains switch_substring) ns"
    by (simp add: doc_nodes_def)
  with typed obtain s where s: "next_index is_switch_node 0 ns = Inr (Some s)"
    using next_index_decides [of ns is_switch_node "type_contains switch_substring" 0]
    by (auto simp: list_all_iff typed_node_is_switch)
  from dicts obtain linked where
    "any_connects s (case kf of Some k \<Rightarrow> k | None \<Rightarrow> length ns) cs = Inr linked"
    using any_connects_returns by blast
  from install_kafka_sink_total [OF nodes conns kf s this] doc show ?thesis by blast
qed

lemma well_formed_truthy: "well_formed doc \<Longrightarrow> py_or doc (JObj []) = doc"
  by (cases doc) (auto simp: py_or_def elim: typed_nodes.elims)

subsection \<open>A run of the graph reconciler\<close>

lemma find_rule_chain_eq:
  "srv (world st) (build_request (RuleChains name) ''GET'' JNull token) = (Body page, w1) \<Longrightarrow>
   find_rule_chain srv token name st =
     (search_page name page,
      \<lparr> world = w1, sent = sent st @ [build_request (RuleChains name) ''GET'' JNull token] \<rparr>)"
  by (simp add: find_rule_chain_def http_request_eq)

lemma find_device_eq:
  "srv (world st) (build_request (TenantDevices name) ''GET'' JNull token) = (Body page, w1) \<Longrightarrow>
   find_device srv token name st =
     (search_page name page,
      \<lparr> world = w1, sent = sent st @ [build_request (TenantDevices name) ''GET'' JNull token] \<rparr>)"
  by (simp add: find_device_def http_request_eq)

lemma ensure_kafka_sink_run:
  assumes "srv (world st) (build_request (RuleChains ''Root Rule Chain'') ''GET'' JNull token) = (Body page, w1)"
    and "search_page ''Root Rule Chain'' page = Inr root_chain"
    and "py_truthy root_chain"
    and "id_of root_chain = Inr chain_id"
    and "srv w1 (build_request (RuleChainMetadataOf chain_id) ''GET'' JNull token) = (Body fetched, w2)"
  shows "ensure_kafka_sink_in_root_chain srv ev token st =
     (case install_kafka_sink ev chain_id (py_or fetched (JObj [])) of
        Inl e \<Rightarrow>
          (Inl e, \<lparr> world = w2,
                    sent = sent st @ [build_request (RuleChains ''Root Rule Chain'') ''GET'' JNull token,
                                      build_request (RuleChainMetadataOf chain_id) ''GET'' JNull token] \<rparr>)
      | Inr metadata \<Rightarrow>
          (case write_metadata srv token chain_id metadata
                  \<lparr> world = w2,
                    sent = sent st @ [build_request (RuleChains ''Root Rule Chain'') ''GET'' JNull token,
                                      build_request (RuleChainMetadataOf chain_id) ''GET'' JNull token] \<rparr> of
             (Inl e, st3) \<Rightarrow> (Inl e, st3)
           | (Inr r, st3) \<Rightarrow> (Inr root_chain, st3)))"
  using assms
  by (simp add: ensure_kafka_sink_in_root_chain_def find_rule_chain_eq http_request_eq)

lemma write_metadata_sent:
  "\<exists>rest. sent (snd (write_metadata srv token cid m st)) =
            sent st @ build_request (RuleChainMetadataOf cid) ''POST'' m token # rest"
proof -
  obtain resp1 w1 where r1: "srv (world st) (build_request (RuleChainMetadataOf cid) ''POST'' m token) = (resp1, w1)"
    by (cases "srv (world st) (build_request (RuleChainMetadataOf cid) ''POST'' m token)")
  obtain resp2 w2 where r2: "srv w1 (build_request RuleChainMetadata ''POST'' m token) = (resp2, w2)"
    by (cases "srv w1 (build_request RuleChainMetadata ''POST'' m token)")
  show ?thesis
    using write_metadata_primary_ok [of srv st cid m token resp1 w1]
      write_metadata_primary_failed [of srv st cid m token resp1 w1 resp2 w2] r1 r2
    by (cases "request_failed resp1") simp_all
qed

text \<open>
  Claim C7. When the root chain is found and the fetched document has well-typed nodes of
  which none has the dispatch substring in its type, the run ends with the
  \<^verbatim>\<open>RequestError\<close> of line 151 after the two reads: the search and the fetch, both
  \<^verbatim>\<open>GET\<close> requests without a body. No write request is sent.
\<close>

theorem missing_switch_fails_before_write:
  assumes "srv (world st) (build_request (RuleChains ''Root Rule Chain'') ''GET'' JNull token) = (Body page, w1)"
    and "search_page ''Root Rule Chain'' page = Inr root_chain"
    and "py_truthy root_chain"
    and "id_of root_chain = Inr chain_id"
    and "srv w1 (build_request (RuleChainMetadataOf chain_id) ''GET'' JNull token) = (Body fetched, w2)"
    and "py_or fetched (JObj []) = JObj md"
    and "dict_get_default md ''nodes'' (JArr []) = JArr ns"
    and "list_all typed_node ns"
    and "\<not> list_ex (type_contains switch_substring) ns"
  shows "ensure_kafka_sink_in_root_chain srv ev token st =
           (Inl (RequestError (Message ''Message Type Switch node not found in root rule chain'')),
            \<lparr> world = w2,
              sent = sent st @ [build_request (RuleChains ''Root Rule Chain'') ''GET'' JNull token,
                                build_request (RuleChainMetadataOf chain_id) ''GET'' JNull token] \<rparr>)
       \<and> req_method (build_request (RuleChains ''Root Rule Chain'') ''GET'' JNull token) = ''GET''
       \<and> req_data (build_request (RuleChains ''Root Rule Chain'') ''GET'' JNull token) = None
       \<and> req_method (build_request (RuleChainMetadataOf chain_id) ''GET'' JNull token) = ''GET''
       \<and> req_data (build_request (RuleChainMetadataOf chain_id) ''GET'' JNull token) = None"
  using ensure_kafka_sink_run [OF assms(1-5), of ev] install_kafka_sink_no_switch [OF assms(7-9), of ev chain_id]
  by (simp add: assms(6) build_request_def)

text \<open>
  Claim C10. When the root chain is found and the fetched document is well formed and has
  a dispatch node, lines 139-192 produce a document and the run sends it to the primary
  endpoint as its third request, whether or not it differs from the fetched one.
\<close>

theorem write_always_issued:
  assumes "srv (world st) (build_request (RuleChains ''Root Rule Chain'') ''GET'' JNull token) = (Body page, w1)"
    and "search_page ''Root Rule Chain'' page = Inr root_chain"
    and "py_truthy root_chain"
    and "id_of root_chain = Inr chain_id"
    and "srv w1 (build_request (RuleChainMetadataOf chain_id) ''GET'' JNull token) = (Body fetched, w2)"
    and "well_formed fetched"
    and "list_ex (type_contains switch_substring) (doc_nodes fetched)"
  shows "\<exists>metadata rest.
           install_kafka_sink ev chain_id fetched = Inr metadata
         \<and> sent (snd (ensure_kafka_sink_in_root_chain srv ev token st)) =
             sent st @ [build_request (RuleChains ''Root Rule Chain'') ''GET'' JNull token,
                        build_request (RuleChainMetadataOf chain_id) ''GET'' JNull token,
                        build_request (RuleChainMetadataOf chain_id) ''POST'' metadata token] @ rest"
proof -
  from assms(6,7) obtain metadata where m: "install_kafka_sink ev chain_id fetched = Inr metadata"
    using install_kafka_sink_returns by blast
  define st2 where
    "st2 = \<lparr> world = w2,
             sent = sent st @ [build_request (RuleChains ''Root Rule Chain'') ''GET'' JNull token,
                               build_request (RuleChainMetadataOf chain_id) ''GET'' JNull token] \<rparr>"
  obtain rest where rest:
    "sent (snd (write_metadata srv token chain_id metadata st2)) =
       sent st2 @ build_request (RuleChainMetadataOf chain_id) ''POST'' metadata token # rest"
    using write_metadata_sent by blast
  have "snd (ensure_kafka_sink_in_root_chain srv ev token st) =
          snd (write_metadata srv token chain_id metadata st2)"
    using ensure_kafka_sink_run [OF assms(1-5), of ev] m
    by (simp add: well_formed_truthy [OF assms(6)] st2_def split: prod.splits sum.splits)
  with rest m show ?thesis by (simp add: st2_def)
qed


theorem missing_switch_fails_before_write_witness:
  "ensure_kafka_sink_in_root_chain scripted demo_env ''tok''
     \<lparr> world = [Body root_page_ex, Body no_switch_doc], sent = [] \<rparr> =
     (Inl (RequestError (Message ''Message Type Switch node not found in root rule chain'')),
      \<lparr> world = [],
        sent = [build_request (RuleChains ''Root Rule Chain'') ''GET'' JNull ''tok'',
                build_request (RuleChainMetadataOf (JStr ''rc-1'')) ''GET'' JNull ''tok''] \<rparr>)"
proof -
  have a1: "scripted (world \<lparr> world = [Body root_page_ex, Body no_switch_doc], sent = [] \<rparr>)
              (build_request (RuleChains ''Root Rule Chain'') ''GET'' JNull ''tok'') =
            (Body root_page_ex, [Body no_switch_doc])"
    by (simp add: scripted_def)
  have a2: "search_page ''Root Rule Chain'' root_page_ex = Inr root_chain_ex" by code_simp
  have a3: "py_truthy root_chain_ex" by code_simp
  have a4: "id_of root_chain_ex = Inr (JStr ''rc-1'')" by code_simp
  have a5: "scripted [Body no_switch_doc]
              (build_request (RuleChainMetadataOf (JStr ''rc-1'')) ''GET'' JNull ''tok'') =
            (Body no_switch_doc, [])"
    by (simp add: scripted_def)
  have a6: "py_or no_switch_doc (JObj []) =
              JObj [(''ruleChainId'', JStr ''rc-1''), (''nodes'', JArr [save_ex, sink_ex]),
                    (''connections'', JArr [edge_ex 0 1 ''Success''])]"
    by code_simp
  have a7: "dict_get_default [(''ruleChainId'', JStr ''rc-1''), (''nodes'', JArr [save_ex, sink_ex]),
                              (''connections'', JArr [edge_ex 0 1 ''Success''])] ''nodes'' (JArr []) =
              JArr [save_ex, sink_ex]"
    by code_simp
  have a8: "list_all typed_node [save_ex, sink_ex]" by code_simp
  have a9: "\<not> list_ex (type_contains switch_substring) [save_ex, sink_ex]" by code_simp
  from missing_switch_fails_before_write [OF a1 a2 a3 a4 a5 a6 a7 a8 a9, of demo_env]
  show ?thesis by simp
qed

theorem write_always_issued_witness:
  "install_kafka_sink demo_env (JStr ''rc-1'') grown_doc = Inr grown_doc
   \<and> (\<exists>rest. sent (snd (ensure_kafka_sink_in_root_chain scripted demo_env ''tok''
                \<lparr> world = [Body root_page_ex, Body grown_doc, Body JNull], sent = [] \<rparr>)) =
        [build_request (RuleChains ''Root Rule Chain'') ''GET'' JNull ''tok'',
         build_request (RuleChainMetadataOf (JStr ''rc-1'')) ''GET'' JNull ''tok'',
         build_request (RuleChainMetadataOf (JStr ''rc-1'')) ''POST'' grown_doc ''tok''] @ rest)"
proof -
  have a1: "scripted (world \<lparr> world = [Body root_page_ex, Body grown_doc, Body JNull], sent = [] \<rparr>)
              (build_request (RuleChains ''Root Rule Chain'') ''GET'' JNull ''tok'') =
            (Body root_page_ex, [Body grown_doc, Body JNull])"
    by (simp add: scripted_def)
  have a2: "search_page ''Root Rule Chain'' root_page_ex = Inr root_chain_ex" by code_simp
  have a3: "py_truthy root_chain_ex" by code_simp
  have a4: "id_of root_chain_ex = Inr (JStr ''rc-1'')" by code_simp
  have a5: "scripted [Body grown_doc, Body JNull]
              (build_request (RuleChainMetadataOf (JStr ''rc-1'')) ''GET'' JNull ''tok'') =
            (Body grown_doc, [Body JNull])"
    by (simp add: scripted_def)
  have a6: "well_formed grown_doc" by code_simp
  have a7: "list_ex (type_contains switch_substring) (doc_nodes grown_doc)" by code_simp
  have same: "install_kafka_sink demo_env (JStr ''rc-1'') grown_doc = Inr grown_doc" by code_simp
  from write_always_issued [OF a1 a2 a3 a4 a5 a6 a7, of demo_env] same
  show ?thesis by simp
qed

subsection \<open>Lookups\<close>

lemma first_named_find:
  "list_all is_dict items \<Longrightarrow>
   first_named name items = Inr (case List.find (has_name name) items of None \<Rightarrow> JNull | Some it \<Rightarrow> it)"
proof (induction items)
  case Nil
  then show ?case by simp
next
  case (Cons it items)
  then obtain kvs where "it = JObj kvs" by (cases it) (auto simp: is_dict_def)
  with Cons show ?case by (simp add: has_name_def)
qed

lemma py_or_dict: "py_or (JObj page) (JObj []) = JObj page"
  by (cases page) (simp_all add: py_or_def)

lemma search_page_find:
  assumes "dict_get_default page ''data'' (JArr []) = JArr items" and "list_all is_dict items"
  shows "search_page name (JObj page) =
           Inr (case List.find (has_name name) items of None \<Rightarrow> JNull | Some it \<Rightarrow> it)"
  using assms by (simp add: search_page_def py_or_dict first_named_find)

text \<open>
  Claim C5. When the platform answers the device search with a page whose \<^verbatim>\<open>data\<close> is a
  list of dicts, \<^verbatim>\<open>find_device\<close> returns the first item of the list whose \<^verbatim>\<open>name\<close> equals
  the lookup name, and \<^verbatim>\<open>None\<close> when no item has that name; and so does
  \<^verbatim>\<open>find_rule_chain\<close> for the answer to the rule-chain search. Each lookup depends on the
  answer to its own search only, and sends that one request.
\<close>

theorem find_by_exact_name:
  "(dict_get_default page ''data'' (JArr []) = JArr items \<and> list_all is_dict items
      \<and> srv (world st) (build_request (TenantDevices name) ''GET'' JNull token) = (Body (JObj page), w)
    \<longrightarrow> find_device srv token name st =
          (Inr (case List.find (has_name name) items of None \<Rightarrow> JNull | Some it \<Rightarrow> it),
           \<lparr> world = w, sent = sent st @ [build_request (TenantDevices name) ''GET'' JNull token] \<rparr>))
   \<and> (dict_get_default page' ''data'' (JArr []) = JArr items' \<and> list_all is_dict items'
      \<and> srv' (world st') (build_request (RuleChains name') ''GET'' JNull token') = (Body (JObj page'), w')
    \<longrightarrow> find_rule_chain srv' token' name' st' =
          (Inr (case List.find (has_name name') items' of None \<Rightarrow> JNull | Some it \<Rightarrow> it),
           \<lparr> world = w', sent = sent st' @ [build_request (RuleChains name') ''GET'' JNull token'] \<rparr>))"
  by (simp add: find_device_eq find_rule_chain_eq search_page_find)

theorem find_by_exact_name_witness:
  "fst (find_device scripted ''tok'' ''Root Rule Chain'' \<lparr> world = [Body root_page_ex], sent = [] \<rparr>)
     = Inr root_chain_ex
   \<and> fst (find_rule_chain scripted ''tok'' ''Root Rule Chain'' \<lparr> world = [Body root_page_ex], sent = [] \<rparr>)
     = Inr root_chain_ex
   \<and> fst (find_rule_chain scripted ''tok'' ''Root'' \<lparr> world = [Body root_page_ex], sent = [] \<rparr>)
     = Inr JNull
   \<and> fst (find_device scripted ''tok'' ''drone-1'' \<lparr> world = [Body empty_page_ex], sent = [] \<rparr>)
     = Inr JNull"
proof -
  define page where
    "page = [(''data'', JArr [JObj [(''name'', JStr ''Root Rule Chain v2''),
                                     (''id'', JObj [(''entityType'', JStr ''RULE_CHAIN''), (''id'', JStr ''rc-2'')])],
                               root_chain_ex]),
             (''totalElements'', JNum 2)]"
  define items where
    "items = [JObj [(''name'', JStr ''Root Rule Chain v2''),
                    (''id'', JObj [(''entityType'', JStr ''RULE_CHAIN''), (''id'', JStr ''rc-2'')])],
              root_chain_ex]"
  define none where "none = [(''data'', JArr []), (''totalElements'', JNum 0)]"
  have p: "root_page_ex = JObj page" by (simp add: root_page_ex_def page_def root_chain_ex_def)
  have e: "empty_page_ex = JObj none" by (simp add: empty_page_ex_def none_def)
  have a1: "dict_get_default page ''data'' (JArr []) = JArr items"
    by (simp add: page_def items_def dict_get_default_def)
  have a2: "list_all is_dict items" by (simp add: items_def is_dict_def root_chain_ex_def)
  have a3: "scripted (world \<lparr> world = [Body root_page_ex], sent = [] \<rparr>) req = (Body (JObj page), [])" for req
    by (simp add: scripted_def p)
  have b1: "dict_get_default none ''data'' (JArr []) = JArr []"
    by (simp add: none_def dict_get_default_def)
  have b3: "scripted (world \<lparr> world = [Body empty_page_ex], sent = [] \<rparr>) req = (Body (JObj none), [])" for req
    by (simp add: scripted_def e)
  have f1: "List.find (has_name ''Root Rule Chain'') items = Some root_chain_ex"
    by (simp add: items_def has_name_def dict_get_def dict_get_default_def root_chain_ex_def)
  have f2: "List.find (has_name ''Root'') items = None"
    by (simp add: items_def has_name_def dict_get_def dict_get_default_def root_chain_ex_def)
  from find_by_exact_name [where srv = scripted and page = page and items = items
      and st = "\<lparr> world = [Body root_page_ex], sent = [] \<rparr>" and name = "''Root Rule Chain''"
      and token = "''tok''" and w = "[]"
      and srv' = scripted and page' = page and items' = items
      and st' = "\<lparr> world = [Body root_page_ex], sent = [] \<rparr>" and name' = "''Root Rule Chain''"
      and token' = "''tok''" and w' = "[]"]
    find_by_exact_name [where srv = scripted and page = none and items = "[]"
      and st = "\<lparr> world = [Body empty_page_ex], sent = [] \<rparr>" and name = "''drone-1''"
      and token = "''tok''" and w = "[]"
      and srv' = scripted and page' = page and items' = items
      and st' = "\<lparr> world = [Body root_page_ex], sent = [] \<rparr>" and name' = "''Root''"
      and token' = "''tok''" and w' = "[]"]
    a1 a2 a3 b1 b3 f1 f2
  show ?thesis by simp
qed

subsection \<open>The entity reconciler\<close>

lemma http_request_sent:
  "http_request srv path method payload token st = (r, st') \<Longrightarrow>
   sent st' = sent st @ [build_request path method payload token]"
  by (auto simp: http_request_def Let_def split: prod.splits)

lemma snd_forward:
  "snd (case x of (Inl e, s) \<Rightarrow> (Inl e, s) | (Inr v, s) \<Rightarrow> (Inr d, s)) = snd x"
  by (auto split: prod.splits sum.splits)

lemma cred_payload_carried:
  assumes "carries_id credentials" and "is_dict credentials"
  shows "cred_payload dev_id secret credentials =
           Inr (JObj [(''credentialsType'', JStr ''ACCESS_TOKEN''),
                      (''credentialsId'', JStr secret),
                      (''deviceId'', dict_get_default (record_fields credentials) ''deviceId''
                                       (own_device_ref dev_id)),
                      (''id'', dict_get (record_fields credentials) ''id'')])"
proof -
  from assms(2) obtain cred where c: "credentials = JObj cred"
    by (cases credentials) (auto simp: is_dict_def)
  with assms(1) have t: "py_truthy (JObj cred)" "py_truthy (dict_get cred ''id'')"
    by (simp_all add: carries_id_def record_fields_def)
  then obtain cid where cid: "map_of cred ''id'' = Some cid" and "py_truthy cid"
    by (auto simp: dict_get_def dict_get_default_def split: option.splits)
  with t(1) show ?thesis
    by (simp add: c cred_payload_def record_fields_def dict_set_def own_device_ref_def
          dict_get_def dict_get_default_def split: option.splits)
qed

lemma cred_payload_fresh:
  assumes "\<not> carries_id credentials" and "credentials = JNull \<or> is_dict credentials"
  shows "cred_payload dev_id secret credentials =
           Inr (JObj [(''credentialsType'', JStr ''ACCESS_TOKEN''),
                      (''credentialsId'', JStr secret),
                      (''deviceId'', own_device_ref dev_id)])"
proof (cases "credentials = JNull")
  case True
  then show ?thesis by (simp add: cred_payload_def own_device_ref_def)
next
  case False
  with assms(2) obtain cred where c: "credentials = JObj cred"
    by (cases credentials) (auto simp: is_dict_def)
  with assms(1) show ?thesis
    by (auto simp: cred_payload_def carries_id_def record_fields_def own_device_ref_def Let_def)
qed

lemma ensure_device_sent:
  assumes "obtain_device srv token name st = (Inr device, st2)"
    and "id_of device = Inr dev_id"
    and "srv (world st2) (build_request (DeviceCredentialsOf dev_id) ''GET'' JNull token) = (Body credentials, w3)"
    and "cred_payload dev_id secret credentials = Inr payload"
  shows "sent (snd (ensure_device srv token name secret st)) =
           sent st2 @ [build_request (DeviceCredentialsOf dev_id) ''GET'' JNull token,
                       build_request DeviceCredentials ''POST'' payload token]"
proof -
  define st3 where
    "st3 = \<lparr> world = w3, sent = sent st2 @ [build_request (DeviceCredentialsOf dev_id) ''GET'' JNull token] \<rparr>"
  obtain r st4 where post: "http_request srv DeviceCredentials ''POST'' payload token st3 = (r, st4)"
    by (cases "http_request srv DeviceCredentials ''POST'' payload token st3")
  then have "sent st4 = sent st3 @ [build_request DeviceCredentials ''POST'' payload token]"
    by (rule http_request_sent)
  moreover have "snd (ensure_device srv token name secret st) = st4"
    using assms post
    by (simp add: ensure_device_def http_request_eq st3_def split: sum.splits)
  ultimately show ?thesis by (simp add: st3_def)
qed

text \<open>
  Claim C6. Let the device be found or created, with identifier \<open>dev_id\<close>, and let the
  platform answer the credentials request with a record (a dict) or with nothing. The
  run then ends by sending one upsert whose payload has the given secret. When the record
  is non-empty and its \<^verbatim>\<open>id\<close> is truthy, the payload has that \<^verbatim>\<open>id\<close> and the record's
  \<^verbatim>\<open>deviceId\<close> (the reference built from \<open>dev_id\<close> when the record has none); otherwise the
  payload has no \<^verbatim>\<open>id\<close> and the reference built from \<open>dev_id\<close>.
\<close>

theorem upsert_reuses_credential_id:
  assumes "obtain_device srv token name st = (Inr device, st2)"
    and "id_of device = Inr dev_id"
    and "srv (world st2) (build_request (DeviceCredentialsOf dev_id) ''GET'' JNull token) = (Body credentials, w3)"
    and "credentials = JNull \<or> is_dict credentials"
  shows "\<exists>payload.
           sent (snd (ensure_device srv token name secret st)) =
             sent st2 @ [build_request (DeviceCredentialsOf dev_id) ''GET'' JNull token,
                         build_request DeviceCredentials ''POST'' (JObj payload) token]
         \<and> map_of payload ''credentialsType'' = Some (JStr ''ACCESS_TOKEN'')
         \<and> map_of payload ''credentialsId'' = Some (JStr secret)
         \<and> (carries_id credentials \<longrightarrow>
               map_of payload ''id'' = Some (dict_get (record_fields credentials) ''id'')
             \<and> map_of payload ''deviceId'' =
                 Some (dict_get_default (record_fields credentials) ''deviceId'' (own_device_ref dev_id)))
         \<and> (\<not> carries_id credentials \<longrightarrow>
               map_of payload ''id'' = None
             \<and> map_of payload ''deviceId'' = Some (own_device_ref dev_id))"
proof (cases "carries_id credentials")
  case True
  with assms(4) have "is_dict credentials" by (auto simp: carries_id_def)
  note run = ensure_device_sent [OF assms(1-3) cred_payload_carried [OF True this], of secret]
  show ?thesis
    by (rule exI [of _ "[(''credentialsType'', JStr ''ACCESS_TOKEN''),
                        (''credentialsId'', JStr secret),
                        (''deviceId'', dict_get_default (record_fields credentials) ''deviceId''
                                         (own_device_ref dev_id)),
                        (''id'', dict_get (record_fields credentials) ''id'')]"])
       (simp add: run True)
next
  case False
  note run = ensure_device_sent [OF assms(1-3) cred_payload_fresh [OF False assms(4)], of secret]
  show ?thesis
    by (rule exI [of _ "[(''credentialsType'', JStr ''ACCESS_TOKEN''),
                        (''credentialsId'', JStr secret),
                        (''deviceId'', own_device_ref dev_id)]"])
       (simp add: run False)
qed


lemma obtain_device_found:
  assumes "srv (world st) (build_request (TenantDevices name) ''GET'' JNull token) = (Body page, w1)"
    and "search_page name page = Inr device" and "py_truthy device"
  shows "obtain_device srv token name st =
           (Inr device, \<lparr> world = w1, sent = sent st @ [build_request (TenantDevices name) ''GET'' JNull token] \<rparr>)"
  using assms by (simp add: obtain_device_def find_device_eq)

theorem upsert_reuses_credential_id_witness:
  "carries_id cred_ex
   \<and> (\<exists>payload.
        sent (snd (ensure_device scripted ''tok'' ''drone-1'' ''secret-1''
                     \<lparr> world = [Body device_page_ex, Body cred_ex, Body JNull], sent = [] \<rparr>)) =
          [build_request (TenantDevices ''drone-1'') ''GET'' JNull ''tok'',
           build_request (DeviceCredentialsOf (JStr ''dev-1'')) ''GET'' JNull ''tok'',
           build_request DeviceCredentials ''POST'' (JObj payload) ''tok'']
      \<and> map_of payload ''credentialsId'' = Some (JStr ''secret-1'')
      \<and> map_of payload ''id'' = Some (JObj [(''id'', JStr ''cred-1'')])
      \<and> map_of payload ''deviceId'' = Some (JObj [(''entityType'', JStr ''DEVICE''), (''id'', JStr ''dev-1'')]))"
proof -
  have a0: "scripted (world \<lparr> world = [Body device_page_ex, Body cred_ex, Body JNull], sent = [] \<rparr>)
              (build_request (TenantDevices ''drone-1'') ''GET'' JNull ''tok'') =
            (Body device_page_ex, [Body cred_ex, Body JNull])"
    by (simp add: scripted_def)
  have f: "search_page ''drone-1'' device_page_ex = Inr device_ex" by code_simp
  have t: "py_truthy device_ex" by code_simp
  note a1 = obtain_device_found [where srv = scripted
      and st = "\<lparr> world = [Body device_page_ex, Body cred_ex, Body JNull], sent = [] \<rparr>", OF a0 f t]
  have a2: "id_of device_ex = Inr (JStr ''dev-1'')" by code_simp
  have a3: "scripted (world \<lparr> world = [Body cred_ex, Body JNull],
                              sent = sent \<lparr> world = [Body device_page_ex, Body cred_ex, Body JNull], sent = [] \<rparr>
                                     @ [build_request (TenantDevices ''drone-1'') ''GET'' JNull ''tok''] \<rparr>)
              (build_request (DeviceCredentialsOf (JStr ''dev-1'')) ''GET'' JNull ''tok'') =
            (Body cred_ex, [Body JNull])"
    by (simp add: scripted_def)
  have a4: "cred_ex = JNull \<or> is_dict cred_ex" by code_simp
  have c: "carries_id cred_ex" by code_simp
  have i: "dict_get (record_fields cred_ex) ''id'' = JObj [(''id'', JStr ''cred-1'')]" by code_simp
  have d: "dict_get_default (record_fields cred_ex) ''deviceId'' (own_device_ref (JStr ''dev-1'')) =
             JObj [(''entityType'', JStr ''DEVICE''), (''id'', JStr ''dev-1'')]" by code_simp
  from upsert_reuses_credential_id [OF a1 a2 a3 a4, of "''secret-1''"] c i d
  show ?thesis by simp blast
qed

lemma cred_payload_secret:
  "cred_payload dev_id secret credentials = Inr payload \<Longrightarrow>
   \<exists>p. payload = JObj p \<and> map_of p ''credentialsId'' = Some (JStr secret)"
  by (auto simp: cred_payload_def Let_def dict_set_def split: if_splits json.splits sum.splits)

lemma obtain_device_sent:
  assumes "obtain_device srv token name st = (Inr device, st2)"
  shows "sent st2 = sent st @ [build_request (TenantDevices name) ''GET'' JNull token]
       \<or> sent st2 = sent st @ [build_request (TenantDevices name) ''GET'' JNull token,
                                build_request Device ''POST''
                                  (JObj [(''name'', JStr name), (''type'', JStr ''drone'')]) token]"
proof -
  obtain r st1 where f: "find_device srv token name st = (r, st1)"
    by (cases "find_device srv token name st")
  then have s1: "sent st1 = sent st @ [build_request (TenantDevices name) ''GET'' JNull token]"
    by (auto simp: find_device_def dest: http_request_sent split: prod.splits sum.splits)
  from assms f obtain found where r: "r = Inr found"
    by (cases r) (simp_all add: obtain_device_def)
  show ?thesis
  proof (cases "py_truthy found")
    case True
    with assms f r s1 show ?thesis by (simp add: obtain_device_def)
  next
    case False
    with assms f r have
      "http_request srv Device ''POST'' (JObj [(''name'', JStr name), (''type'', JStr ''drone'')]) token st1 =
         (Inr device, st2)"
      by (simp add: obtain_device_def)
    from http_request_sent [OF this] s1 show ?thesis by simp
  qed
qed

lemma ensure_device_success:
  assumes "ensure_device srv token name secret st = (Inr device, st')"
  obtains st2 dev_id p where
    "obtain_device srv token name st = (Inr device, st2)"
    "sent st' = sent st2 @ [build_request (DeviceCredentialsOf dev_id) ''GET'' JNull token,
                            build_request DeviceCredentials ''POST'' (JObj p) token]"
    "map_of p ''credentialsId'' = Some (JStr secret)"
proof -
  obtain r st2 where o: "obtain_device srv token name st = (r, st2)"
    by (cases "obtain_device srv token name st")
  with assms obtain dev where r: "r = Inr dev"
    by (cases r) (simp_all add: ensure_device_def)
  from assms o r obtain dev_id where i: "id_of dev = Inr dev_id"
    by (cases "id_of dev") (simp_all add: ensure_device_def)
  obtain r3 st3 where g: "http_request srv (DeviceCredentialsOf dev_id) ''GET'' JNull token st2 = (r3, st3)"
    by (cases "http_request srv (DeviceCredentialsOf dev_id) ''GET'' JNull token st2")
  with assms o r i obtain credentials where r3: "r3 = Inr credentials"
    by (cases r3) (simp_all add: ensure_device_def)
  from assms o r i g r3 obtain payload where c: "cred_payload dev_id secret credentials = Inr payload"
    by (cases "cred_payload dev_id secret credentials") (simp_all add: ensure_device_def)
  obtain r4 st4 where u: "http_request srv DeviceCredentials ''POST'' payload token st3 = (r4, st4)"
    by (cases "http_request srv DeviceCredentials ''POST'' payload token st3")
  from assms o r i g r3 c u have fin: "dev = device" "st4 = st'"
    by (cases r4; simp add: ensure_device_def)+
  from c obtain p where p: "payload = JObj p" "map_of p ''credentialsId'' = Some (JStr secret)"
    using cred_payload_secret by blast
  have "sent st' = sent st2 @ [build_request (DeviceCredentialsOf dev_id) ''GET'' JNull token,
                               build_request DeviceCredentials ''POST'' (JObj p) token]"
    using http_request_sent [OF g] http_request_sent [OF u] fin p by simp
  with o r fin p show thesis using that by blast
qed


text \<open>
  Claim C3. Let a first run succeed, and let the platform then hold what that run left:
  the search lists an item with exactly the name, and the credentials request for its
  identifier answers with a record that carries an id. Then the second run sends no
  create request, so both runs together send at most one; its upsert carries the id of the
  fetched record, so both runs together send at most one upsert without an id, the only
  kind that can make a new credential record; and each run ends with an upsert whose
  token is the given secret.
\<close>

theorem second_run_creates_nothing:
  assumes "ensure_device srv token name secret st0 = (Inr device1, st1)"
    and "srv (world st1) (build_request (TenantDevices name) ''GET'' JNull token) = (Body page, w1)"
    and "search_page name page = Inr device2"
    and "py_truthy device2"
    and "id_of device2 = Inr dev_id"
    and "srv w1 (build_request (DeviceCredentialsOf dev_id) ''GET'' JNull token) = (Body credentials, w2)"
    and "is_dict credentials"
    and "carries_id credentials"
  shows "filter is_create (drop (length (sent st1)) (sent (snd (ensure_device srv token name secret st1)))) = []
       \<and> length (filter is_create
                   (drop (length (sent st0)) (sent (snd (ensure_device srv token name secret st1))))) \<le> 1
       \<and> length (filter is_fresh_upsert
                   (drop (length (sent st0)) (sent (snd (ensure_device srv token name secret st1))))) \<le> 1
       \<and> is_upsert (last (sent st1))
       \<and> map_of (payload_fields (last (sent st1))) ''credentialsId'' = Some (JStr secret)
       \<and> is_upsert (last (sent (snd (ensure_device srv token name secret st1))))
       \<and> map_of (payload_fields (last (sent (snd (ensure_device srv token name secret st1)))))
             ''credentialsId'' = Some (JStr secret)
       \<and> map_of (payload_fields (last (sent (snd (ensure_device srv token name secret st1))))) ''id'' =
             Some (dict_get (record_fields credentials) ''id'')"
proof -
  define S where "S = build_request (TenantDevices name) ''GET'' JNull token"
  define C where
    "C = build_request Device ''POST'' (JObj [(''name'', JStr name), (''type'', JStr ''drone'')]) token"
  from assms(1) obtain sta dev_id1 p1 where
    o1: "obtain_device srv token name st0 = (Inr device1, sta)"
    and s1: "sent st1 = sent sta @ [build_request (DeviceCredentialsOf dev_id1) ''GET'' JNull token,
                                   build_request DeviceCredentials ''POST'' (JObj p1) token]"
    and c1: "map_of p1 ''credentialsId'' = Some (JStr secret)"
    by (rule ensure_device_success)
  from obtain_device_sent [OF o1] have pre: "sent sta = sent st0 @ [S] \<or> sent sta = sent st0 @ [S, C]"
    by (simp add: S_def C_def)
  define stb where "stb = \<lparr> world = w1, sent = sent st1 @ [S] \<rparr>"
  have o2: "obtain_device srv token name st1 = (Inr device2, stb)"
    using obtain_device_found [where srv = srv and st = st1, OF assms(2-4)] by (simp add: stb_def S_def)
  have g2: "srv (world stb) (build_request (DeviceCredentialsOf dev_id) ''GET'' JNull token) = (Body credentials, w2)"
    using assms(6) by (simp add: stb_def)
  define p2 where
    "p2 = [(''credentialsType'', JStr ''ACCESS_TOKEN''),
           (''credentialsId'', JStr secret),
           (''deviceId'', dict_get_default (record_fields credentials) ''deviceId'' (own_device_ref dev_id)),
           (''id'', dict_get (record_fields credentials) ''id'')]"
  have s2: "sent (snd (ensure_device srv token name secret st1)) =
              sent st1 @ [S, build_request (DeviceCredentialsOf dev_id) ''GET'' JNull token,
                          build_request DeviceCredentials ''POST'' (JObj p2) token]"
    using ensure_device_sent [OF o2 assms(5) g2 cred_payload_carried [OF assms(8,7)], of secret]
    by (simp add: stb_def p2_def)
  have kinds:
    "\<not> is_create S" "is_create C"
    "\<not> is_create (build_request (DeviceCredentialsOf d) ''GET'' JNull token)"
    "\<not> is_create (build_request DeviceCredentials ''POST'' (JObj p) token)"
    "\<not> is_fresh_upsert S" "\<not> is_fresh_upsert C"
    "\<not> is_fresh_upsert (build_request (DeviceCredentialsOf d) ''GET'' JNull token)"
    "is_upsert (build_request DeviceCredentials ''POST'' (JObj p) token)"
    "payload_fields (build_request DeviceCredentials ''POST'' (JObj p) token) = p"
    for d p
    by (simp_all add: is_create_def is_fresh_upsert_def is_upsert_def payload_fields_def
          build_request_def S_def C_def)
  have fresh2: "\<not> is_fresh_upsert (build_request DeviceCredentials ''POST'' (JObj p2) token)"
    by (simp add: is_fresh_upsert_def kinds p2_def)
  have m2: "map_of p2 ''credentialsId'' = Some (JStr secret)"
    "map_of p2 ''id'' = Some (dict_get (record_fields credentials) ''id'')"
    by (simp_all add: p2_def)
  from pre show ?thesis
  proof
    assume "sent sta = sent st0 @ [S]"
    then show ?thesis
      by (simp add: s2 s1 kinds fresh2 c1 m2)
  next
    assume "sent sta = sent st0 @ [S, C]"
    then show ?thesis
      by (simp add: s2 s1 kinds fresh2 c1 m2)
  qed
qed


theorem second_run_creates_nothing_witness:
  "ensure_device scripted ''tok'' ''drone-1'' ''secret-1'' \<lparr> world = fleet_script, sent = [] \<rparr> =
     (Inr device_ex, after_first_run)
   \<and> filter is_create
         (drop (length (sent after_first_run))
            (sent (snd (ensure_device scripted ''tok'' ''drone-1'' ''secret-1'' after_first_run)))) = []
   \<and> length (filter is_create
         (sent (snd (ensure_device scripted ''tok'' ''drone-1'' ''secret-1'' after_first_run)))) \<le> 1
   \<and> length (filter is_fresh_upsert
         (sent (snd (ensure_device scripted ''tok'' ''drone-1'' ''secret-1'' after_first_run)))) \<le> 1
   \<and> map_of (payload_fields (last (sent after_first_run))) ''credentialsId'' = Some (JStr ''secret-1'')
   \<and> map_of (payload_fields
         (last (sent (snd (ensure_device scripted ''tok'' ''drone-1'' ''secret-1'' after_first_run)))))
         ''credentialsId'' = Some (JStr ''secret-1'')
   \<and> map_of (payload_fields
         (last (sent (snd (ensure_device scripted ''tok'' ''drone-1'' ''secret-1'' after_first_run)))))
         ''id'' = Some (JObj [(''id'', JStr ''cred-1'')])"
proof -
  have a1: "ensure_device scripted ''tok'' ''drone-1'' ''secret-1'' \<lparr> world = fleet_script, sent = [] \<rparr> =
              (Inr device_ex, after_first_run)"
    by code_simp
  have a2: "scripted (world after_first_run) (build_request (TenantDevices ''drone-1'') ''GET'' JNull ''tok'') =
              (Body device_page_ex, [Body cred_ex, Body cred_ex])"
    by (simp add: scripted_def after_first_run_def)
  have a3: "search_page ''drone-1'' device_page_ex = Inr device_ex" by code_simp
  have a4: "py_truthy device_ex" by code_simp
  have a5: "id_of device_ex = Inr (JStr ''dev-1'')" by code_simp
  have a6: "scripted [Body cred_ex, Body cred_ex]
              (build_request (DeviceCredentialsOf (JStr ''dev-1'')) ''GET'' JNull ''tok'') =
              (Body cred_ex, [Body cred_ex])"
    by (simp add: scripted_def)
  have a7: "is_dict cred_ex" by code_simp
  have a8: "carries_id cred_ex" by code_simp
  have i: "dict_get (record_fields cred_ex) ''id'' = JObj [(''id'', JStr ''cred-1'')]" by code_simp
  from second_run_creates_nothing [where srv = scripted and ?st0.0 = "\<lparr> world = fleet_script, sent = [] \<rparr>"
      and ?st1.0 = after_first_run, OF a1 a2 a3 a4 a5 a6 a7 a8] a1 i
  show ?thesis by simp
qed

end
